theory Spec2Isabelle
  imports Main "HOL-Library.Word" "HOL-Library.Sublist"
begin

section \<open>JavaScript values used by App.jsx\<close>

text \<open>
  A JavaScript string is a sequence of UTF-16 code units.  ASCII literals of the source
  are written \<open>js ''...''\<close>; a Latin-1 letter such as U+00E4 is the single code unit
  \<open>0xE4\<close>.
\<close>

type_synonym jschar = "16 word"
type_synonym jsstring = "jschar list"

definition js :: "string \<Rightarrow> jsstring" where
  "js s = map of_char s"

text \<open>\<open>a || b\<close> on two strings: the empty string is the only falsy string.\<close>

definition strOr :: "jsstring \<Rightarrow> jsstring \<Rightarrow> jsstring" where
  "strOr a b = (if a \<noteq> [] then a else b)"

text \<open>
  A property read \<open>obj.KEY\<close> yields a string, or \<open>undefined\<close> or \<open>null\<close> (both \<open>None\<close>).
  \<open>optOr\<close> is \<open>a || b\<close> between two such reads, \<open>optOrStr\<close> is \<open>a || "literal"\<close>.
\<close>

definition truthy :: "jsstring option \<Rightarrow> bool" where
  "truthy v = (case v of None \<Rightarrow> False | Some s \<Rightarrow> s \<noteq> [])"

definition optOr :: "jsstring option \<Rightarrow> jsstring option \<Rightarrow> jsstring option" where
  "optOr a b = (if truthy a then a else b)"

definition optOrStr :: "jsstring option \<Rightarrow> jsstring \<Rightarrow> jsstring" where
  "optOrStr a d = (case a of None \<Rightarrow> d | Some s \<Rightarrow> strOr s d)"

text \<open>A value of an object literal sent to the database: a string or \<open>null\<close>.\<close>

datatype jsval = JNull | JStr jsstring

text \<open>\<open>s || null\<close>.\<close>

definition strOrNull :: "jsstring \<Rightarrow> jsval" where
  "strOrNull s = (if s \<noteq> [] then JStr s else JNull)"

subsection \<open>Array.prototype.filter, String.prototype.split, Array.prototype.pop\<close>

text \<open>
  \<open>filter\<close> visits the indices in ascending order and appends every element that passes
  the callback to a fresh result array.
\<close>

fun filter_loop :: "('a \<Rightarrow> bool) \<Rightarrow> 'a list \<Rightarrow> 'a list \<Rightarrow> 'a list" where
  "filter_loop p [] acc = acc"
| "filter_loop p (x # xs) acc = filter_loop p xs (if p x then acc @ [x] else acc)"

definition array_filter :: "('a \<Rightarrow> bool) \<Rightarrow> 'a list \<Rightarrow> 'a list" where
  "array_filter p xs = filter_loop p xs []"

text \<open>\<open>s.split(sep)\<close> for a separator of one code unit; the result is never empty.\<close>

fun split :: "jschar \<Rightarrow> jsstring \<Rightarrow> jsstring list" where
  "split sep [] = [[]]"
| "split sep (c # cs) =
     (if c = sep then [] # split sep cs
      else (case split sep cs of [] \<Rightarrow> [[c]] | p # ps \<Rightarrow> (c # p) # ps))"

text \<open>\<open>xs.pop()\<close> returns the last element, \<open>undefined\<close> on an empty array.\<close>

definition pop :: "'a list \<Rightarrow> 'a option" where
  "pop xs = (if xs = [] then None else Some (last xs))"

section \<open>safeName (App.jsx, lines 52-54)\<close>

text \<open>
  The character class \<open>[^a-z0-9-_\.]\<close> of the regular expression, read without the unicode
  flag: the ranges \<open>a-z\<close> and \<open>0-9\<close> by code-unit value and the three single characters
  hyphen, underscore and full stop.  \<open>in_class c\<close> holds when \<open>c\<close> is NOT matched by the
  negated class, that is when the code unit is left alone.
\<close>

definition in_class :: "jschar \<Rightarrow> bool" where
  "in_class c =
     ((0x61 \<le> c \<and> c \<le> 0x7A) \<or> (0x30 \<le> c \<and> c \<le> 0x39) \<or> c = 0x2D \<or> c = 0x5F \<or> c = 0x2E)"

text \<open>\<open>.replace(/[^a-z0-9-_\.]/g, "-")\<close>: every matched code unit becomes a hyphen.\<close>

definition replace_unsafe :: "jsstring \<Rightarrow> jsstring" where
  "replace_unsafe s = map (\<lambda>c. if in_class c then c else 0x2D) s"

text \<open>
  \<open>String.prototype.toLowerCase\<close> is a built-in driven by the Unicode case tables; it is
  taken as the parameter \<open>toLowerCase\<close>.
\<close>

definition safeName :: "(jsstring \<Rightarrow> jsstring) \<Rightarrow> jsstring \<Rightarrow> jsstring" where
  "safeName toLowerCase name = replace_unsafe (toLowerCase name)"

text \<open>
  The specification's wording of the same function: lowercase, then every character that is
  not a lowercase letter, a digit, a hyphen, an underscore or a full stop becomes a hyphen.
\<close>

definition spec_safe :: "jschar \<Rightarrow> bool" where
  "spec_safe c =
     (c \<in> set (js ''abcdefghijklmnopqrstuvwxyz'') \<or> c \<in> set (js ''0123456789'') \<or>
      c \<in> set (js ''-_.''))"

definition spec_safeName :: "(jsstring \<Rightarrow> jsstring) \<Rightarrow> jsstring \<Rightarrow> jsstring" where
  "spec_safeName toLowerCase s =
     map (\<lambda>c. if spec_safe c then c else of_char CHR ''-'') (toLowerCase s)"

text \<open>
  The built-in restricted to strings whose code units are all below \<open>0x100\<close>: the letters
  A-Z and the Latin-1 capitals U+00C0-U+00DE (without the multiplication sign U+00D7) move
  up by \<open>0x20\<close>, everything else stays.  Used to run examples.
\<close>

definition lower_latin1 :: "jschar \<Rightarrow> jschar" where
  "lower_latin1 c =
     (if (0x41 \<le> c \<and> c \<le> 0x5A) \<or> (0xC0 \<le> c \<and> c \<le> 0xDE \<and> c \<noteq> 0xD7) then c + 0x20 else c)"

definition toLowerCase_latin1 :: "jsstring \<Rightarrow> jsstring" where
  "toLowerCase_latin1 s = map lower_latin1 s"

section \<open>Data model\<close>

text \<open>The active country \<open>{ code, name }\<close> (line 59; \<open>null\<close> is \<open>None\<close>).\<close>

record country =
  code :: jsstring
  name :: jsstring

text \<open>A browser \<open>File\<close>: its name and its bytes.\<close>

record jsfile =
  file_name :: jsstring
  file_bytes :: "8 word list"

text \<open>
  A row of the table \<open>entries\<close> as the select returns it (schema in lines 13-21).  The
  nullable text columns are options; \<open>created_at\<close> is the instant of the timestamp.
\<close>

record entry =
  entry_id :: jsstring
  country_code :: jsstring
  entry_title :: "jsstring option"
  entry_info :: "jsstring option"
  image_url :: "jsstring option"
  audio_url :: "jsstring option"
  created_at :: int

text \<open>The component state: one field per \<open>useState\<close> of lines 57-66.\<close>

record app_state =
  entries :: "entry list"
  loading :: bool
  activeCountry :: "country option"
  showForm :: bool
  uploading :: bool
  title :: jsstring
  info :: jsstring
  imageFile :: "jsfile option"
  audioFile :: "jsfile option"
  error :: jsstring

definition initial_state :: app_state where
  "initial_state =
     \<lparr>entries = [], loading = True, activeCountry = None, showForm = False, uploading = False,
      title = [], info = [], imageFile = None, audioFile = None, error = []\<rparr>"

section \<open>The Supabase client and the outside world\<close>

text \<open>An error object of the SDK; the code reads only \<open>message\<close>.\<close>

record sdk_error =
  message :: jsstring

text \<open>
  The SDK resolves every call to \<open>{ data, error }\<close> where exactly one of the two is
  non-null.  For the two uploads and the row insert of \<open>handleUpload\<close> a call that throws
  takes the same path as one that returns an error, which lines 106, 113 and 124 rethrow;
  both are \<open>Failure\<close>.  The select is different: its returned error is never read, while a
  select that throws leaves the function it was awaited in.  So the answer of a select is
  a sum: \<open>Inl e\<close> when the awaited call throws \<open>e\<close>, \<open>Inr r\<close> when it returns \<open>r\<close>.
\<close>

datatype 'a response = Failure sdk_error | Success 'a

definition error_of :: "'a response \<Rightarrow> sdk_error option" where
  "error_of r = (case r of Failure e \<Rightarrow> Some e | Success d \<Rightarrow> None)"

definition data_of :: "'a response \<Rightarrow> 'a option" where
  "data_of r = (case r of Failure e \<Rightarrow> None | Success d \<Rightarrow> Some d)"

record upload_data =
  path :: jsstring

text \<open>The object literal given to \<open>insert\<close>: keys with their values, in source order.\<close>

type_synonym payload = "(string \<times> jsval) list"

text \<open>\<open>from(table).select(columns).order(column, { ascending })\<close>.\<close>

record query =
  q_table :: jsstring
  q_columns :: jsstring
  q_order :: jsstring
  q_ascending :: bool

text \<open>
  The client: each network method answers from the hidden state \<open>'b\<close> of the hosted service
  and moves it on; \<open>getPublicUrl\<close> is computed locally.  \<open>supabase\<close> of line 38 is a
  \<open>'b client option\<close>, \<open>None\<close> when the two environment variables are not both set.
\<close>

record 'b client =
  storage_upload :: "jsstring \<Rightarrow> jsstring \<Rightarrow> jsfile \<Rightarrow> 'b \<Rightarrow> upload_data response \<times> 'b"
  storage_getPublicUrl :: "jsstring \<Rightarrow> jsstring \<Rightarrow> jsstring"
  from_insert :: "jsstring \<Rightarrow> payload \<Rightarrow> 'b \<Rightarrow> unit response \<times> 'b"
  from_select :: "query \<Rightarrow> 'b \<Rightarrow> (sdk_error + entry list response) \<times> 'b"

text \<open>
  Everything the component does to the outside, in order, each call with its answer.
  An upload is always made with the options \<open>{ cacheControl: "3600", upsert: false }\<close>,
  which are left out.  \<open>FromSelect\<close> is a select that returned, \<open>FromSelectThrew\<close> one that
  threw.  \<open>StorageRemove\<close> is the deletion call of the storage API; App.jsx never makes
  it.
\<close>

datatype event =
    UuidV4 jsstring
  | StorageUpload jsstring jsstring jsfile "upload_data response"
  | StorageRemove jsstring "jsstring list"
  | FromInsert jsstring payload "unit response"
  | FromSelect query "entry list response"
  | FromSelectThrew query sdk_error
  | ConsoleError sdk_error

record 'b world =
  backend :: 'b
  uuid_source :: "nat \<Rightarrow> jsstring"
  uuid_calls :: nat
  trace :: "event list"

definition uuidv4 :: "'b world \<Rightarrow> jsstring \<times> 'b world" where
  "uuidv4 w =
     (let u = uuid_source w (uuid_calls w)
      in (u, w\<lparr>uuid_calls := Suc (uuid_calls w), trace := trace w @ [UuidV4 u]\<rparr>))"

definition upload ::
  "'b client \<Rightarrow> jsstring \<Rightarrow> jsstring \<Rightarrow> jsfile \<Rightarrow> 'b world \<Rightarrow> upload_data response \<times> 'b world" where
  "upload cl bucket nm f w =
     (case storage_upload cl bucket nm f (backend w) of
        (r, b) \<Rightarrow> (r, w\<lparr>backend := b, trace := trace w @ [StorageUpload bucket nm f r]\<rparr>))"

definition insert_row ::
  "'b client \<Rightarrow> jsstring \<Rightarrow> payload \<Rightarrow> 'b world \<Rightarrow> unit response \<times> 'b world" where
  "insert_row cl tbl p w =
     (case from_insert cl tbl p (backend w) of
        (r, b) \<Rightarrow> (r, w\<lparr>backend := b, trace := trace w @ [FromInsert tbl p r]\<rparr>))"

definition select_rows ::
  "'b client \<Rightarrow> query \<Rightarrow> 'b world \<Rightarrow> (sdk_error + entry list response) \<times> 'b world" where
  "select_rows cl q w =
     (case from_select cl q (backend w) of
        (Inl e, b) \<Rightarrow> (Inl e, w\<lparr>backend := b, trace := trace w @ [FromSelectThrew q e]\<rparr>)
      | (Inr r, b) \<Rightarrow> (Inr r, w\<lparr>backend := b, trace := trace w @ [FromSelect q r]\<rparr>))"

definition console_error :: "sdk_error \<Rightarrow> 'b world \<Rightarrow> 'b world" where
  "console_error e w = w\<lparr>trace := trace w @ [ConsoleError e]\<rparr>"

text \<open>The events a run added to the trace.\<close>

definition emitted :: "'b world \<Rightarrow> 'b world \<Rightarrow> event list" where
  "emitted w w' = drop (length (trace w)) (trace w')"

text \<open>The calls that go over the network: everything but drawing an identifier and logging.\<close>

definition is_network :: "event \<Rightarrow> bool" where
  "is_network ev =
     (case ev of UuidV4 u \<Rightarrow> False | ConsoleError e \<Rightarrow> False | _ \<Rightarrow> True)"

definition is_uuid_event :: "event \<Rightarrow> bool" where
  "is_uuid_event ev = (case ev of UuidV4 u \<Rightarrow> True | _ \<Rightarrow> False)"

definition is_remove :: "event \<Rightarrow> bool" where
  "is_remove ev = (case ev of StorageRemove b ps \<Rightarrow> True | _ \<Rightarrow> False)"

definition is_select :: "event \<Rightarrow> bool" where
  "is_select ev =
     (case ev of FromSelect q r \<Rightarrow> True | FromSelectThrew q e \<Rightarrow> True | _ \<Rightarrow> False)"

text \<open>The error of a failed image upload, audio upload or row insert.\<close>

definition step_failure :: "event \<Rightarrow> sdk_error option" where
  "step_failure ev =
     (case ev of
        StorageUpload b n f r \<Rightarrow> error_of r
      | FromInsert t p r \<Rightarrow> error_of r
      | _ \<Rightarrow> None)"

section \<open>Country resolver (App.jsx, lines 162-171 and 178)\<close>

type_synonym properties = "string \<Rightarrow> jsstring option"

definition resolveCountry :: "properties \<Rightarrow> country" where
  "resolveCountry props =
     \<lparr>code = optOrStr (optOr (props ''ISO_A2_EH'') (props ''ISO_A2'')) [],
      name = optOrStr (optOr (optOr (props ''NAME'') (props ''ADMIN'')) (props ''NAME_LONG''))
               (js ''Unbenannt'')\<rparr>"

text \<open>
  The specification's wording: the first non-empty value among an ordered list of keys,
  a default when there is none.
\<close>

fun firstNonEmpty :: "string list \<Rightarrow> properties \<Rightarrow> jsstring \<Rightarrow> jsstring" where
  "firstNonEmpty [] props d = d"
| "firstNonEmpty (k # ks) props d =
     (case props k of
        None \<Rightarrow> firstNonEmpty ks props d
      | Some v \<Rightarrow> if v \<noteq> [] then v else firstNonEmpty ks props d)"

section \<open>Record store\<close>

text \<open>The query of lines 73 and 128.\<close>

definition newest_first :: query where
  "newest_first =
     \<lparr>q_table = js ''entries'', q_columns = js ''*'', q_order = js ''created_at'',
      q_ascending = False\<rparr>"

text \<open>\<open>data || []\<close>: an array, even an empty one, is truthy.\<close>

definition dataOrEmpty :: "entry list response \<Rightarrow> entry list" where
  "dataOrEmpty r = (case data_of r of None \<Rightarrow> [] | Some d \<Rightarrow> d)"

text \<open>
  \<open>load\<close> (lines 71-79).  \<open>ignore\<close> is the value of the flag when the awaited query
  resumes; the effect's cleanup (line 81) sets it.  \<open>load\<close> has no \<open>try\<close>: a query that
  throws ends it on line 73 with nothing set, and line 80 drops the rejected promise.
\<close>

definition load ::
  "'b client option \<Rightarrow> bool \<Rightarrow> app_state \<Rightarrow> 'b world \<Rightarrow> app_state \<times> 'b world" where
  "load supabase ignore s w =
     (case supabase of
        None \<Rightarrow> (s\<lparr>loading := False\<rparr>, w)
      | Some cl \<Rightarrow>
          (case select_rows cl newest_first w of
             (Inl thrown, w1) \<Rightarrow> (s, w1)
           | (Inr r, w1) \<Rightarrow>
               if \<not> ignore then
                 (let w2 = (case error_of r of Some e \<Rightarrow> console_error e w1 | None \<Rightarrow> w1);
                      s1 = s\<lparr>entries := dataOrEmpty r\<rparr>;
                      s2 = s1\<lparr>loading := False\<rparr>
                  in (s2, w2))
               else (s, w1)))"

text \<open>\<open>countryEntries\<close> (lines 85-88).\<close>

definition countryEntries :: "entry list \<Rightarrow> country option \<Rightarrow> entry list" where
  "countryEntries es ac =
     (case ac of
        None \<Rightarrow> []
      | Some c \<Rightarrow> array_filter (\<lambda>e. country_code e = code c) es)"

section \<open>Upload pipeline: handleUpload (App.jsx, lines 90-137)\<close>

text \<open>\<open>file.name.split('.').pop() || fallback\<close> (lines 105 and 112).\<close>

definition extOr :: "jsfile \<Rightarrow> jsstring \<Rightarrow> jsstring" where
  "extOr f fallback = optOrStr (pop (split 0x2E (file_name f))) fallback"

text \<open>Line 100: \<open>safeName(`${activeCountry.code}-${title || "upload"}-${id}`)\<close>.\<close>

definition baseName :: "(jsstring \<Rightarrow> jsstring) \<Rightarrow> country \<Rightarrow> jsstring \<Rightarrow> jsstring \<Rightarrow> jsstring" where
  "baseName toLowerCase c ttl ident =
     safeName toLowerCase (code c @ js ''-'' @ strOr ttl (js ''upload'') @ js ''-'' @ ident)"

text \<open>\<open>`${base}.${ext}`\<close>.\<close>

definition objectName :: "jsstring \<Rightarrow> jsstring \<Rightarrow> jsstring" where
  "objectName base ext = base @ js ''.'' @ ext"

text \<open>The row literal of lines 117-123.\<close>

definition row_of :: "country \<Rightarrow> jsstring \<Rightarrow> jsstring \<Rightarrow> jsstring \<Rightarrow> jsstring \<Rightarrow> payload" where
  "row_of c ttl inf0 imgUrl audUrl =
     [(''country_code'', JStr (code c)),
      (''title'', strOrNull ttl),
      (''info'', strOrNull inf0),
      (''image_url'', JStr imgUrl),
      (''audio_url'', JStr audUrl)]"

text \<open>
  The \<open>try\<close> block (lines 99-130).  \<open>s\<close> is the state the handler closed over (what it
  reads), \<open>st\<close> the state the setters act on.  \<open>Inl e\<close> is \<open>throw e\<close>: by lines 106, 113
  and 124, or by the refresh of line 128 when the awaited select itself throws, which
  happens after the four setters of line 127 ran.
\<close>

definition upload_try ::
  "(jsstring \<Rightarrow> jsstring) \<Rightarrow> 'b client \<Rightarrow> country \<Rightarrow> jsfile \<Rightarrow> jsfile \<Rightarrow> app_state \<Rightarrow> app_state \<Rightarrow> 'b world
     \<Rightarrow> (sdk_error + unit) \<times> app_state \<times> 'b world" where
  "upload_try toLowerCase cl c img aud s st w =
     (case uuidv4 w of (ident, w1) \<Rightarrow>
      let base = baseName toLowerCase c (title s) ident in
      case upload cl (js ''images'') (objectName base (extOr img (js ''jpg''))) img w1 of
        (Failure imgErr, w2) \<Rightarrow> (Inl imgErr, st, w2)
      | (Success imgData, w2) \<Rightarrow>
          let imgPublic = storage_getPublicUrl cl (js ''images'') (path imgData) in
          case upload cl (js ''audio'') (objectName base (extOr aud (js ''mp3''))) aud w2 of
            (Failure audErr, w3) \<Rightarrow> (Inl audErr, st, w3)
          | (Success audData, w3) \<Rightarrow>
              let audPublic = storage_getPublicUrl cl (js ''audio'') (path audData) in
              case insert_row cl (js ''entries'') (row_of c (title s) (info s) imgPublic audPublic) w3 of
                (Failure dbErr, w4) \<Rightarrow> (Inl dbErr, st, w4)
              | (Success u, w4) \<Rightarrow>
                  let st1 = st\<lparr>title := [], info := [], imageFile := None, audioFile := None\<rparr> in
                  case select_rows cl newest_first w4 of
                    (Inl refErr, w5) \<Rightarrow> (Inl refErr, st1, w5)
                  | (Inr refreshed, w5) \<Rightarrow>
                      let st2 = st1\<lparr>entries := dataOrEmpty refreshed\<rparr>;
                          st3 = st2\<lparr>showForm := False\<rparr>
                      in (Inr (), st3, w5))"

definition msg_not_configured :: jsstring where
  "msg_not_configured = js ''Supabase ist nicht konfiguriert.''"

definition msg_no_country :: jsstring where
  "msg_no_country = js (''Bitte zuerst ein Land ausw'' @ [CHR 0xE4] @ ''hlen.'')"

definition msg_no_files :: jsstring where
  "msg_no_files = js (''Bitte Bild (2:3) und MP3 ausw'' @ [CHR 0xE4] @ ''hlen.'')"

definition msg_upload_failed :: jsstring where
  "msg_upload_failed = js ''Upload fehlgeschlagen.''"

definition handleUpload ::
  "(jsstring \<Rightarrow> jsstring) \<Rightarrow> 'b client option \<Rightarrow> app_state \<Rightarrow> 'b world \<Rightarrow> app_state \<times> 'b world" where
  "handleUpload toLowerCase supabase s w =
     (let st0 = s\<lparr>error := []\<rparr> in
      case supabase of
        None \<Rightarrow> (st0\<lparr>error := msg_not_configured\<rparr>, w)
      | Some cl \<Rightarrow>
          (case activeCountry s of
             None \<Rightarrow> (st0\<lparr>error := msg_no_country\<rparr>, w)
           | Some c \<Rightarrow>
               (case (imageFile s, audioFile s) of
                  (Some img, Some aud) \<Rightarrow>
                    (let st1 = st0\<lparr>uploading := True\<rparr> in
                     case upload_try toLowerCase cl c img aud s st1 w of
                       (Inl err, st2, w2) \<Rightarrow>
                         (let w3 = console_error err w2;
                              st3 = st2\<lparr>error := strOr (message err) msg_upload_failed\<rparr>
                          in (st3\<lparr>uploading := False\<rparr>, w3))
                     | (Inr u, st2, w2) \<Rightarrow> (st2\<lparr>uploading := False\<rparr>, w2))
                | _ \<Rightarrow> (st0\<lparr>error := msg_no_files\<rparr>, w))))"

section \<open>Vocabulary of the properties\<close>

text \<open>
  A run of \<open>handleUpload\<close> fails when a precondition is violated or when the image
  upload, the audio upload or the row insert answers with an error.
\<close>

definition submit_failed :: "'b client option \<Rightarrow> app_state \<Rightarrow> event list \<Rightarrow> bool" where
  "submit_failed supabase s evs =
     (supabase = None \<or> activeCountry s = None \<or> imageFile s = None \<or> audioFile s = None \<or>
      list_ex (\<lambda>ev. step_failure ev \<noteq> None) evs)"

definition insert_ok :: "event \<Rightarrow> bool" where
  "insert_ok ev = (case ev of FromInsert t p r \<Rightarrow> error_of r = None | _ \<Rightarrow> False)"

definition is_console :: "event \<Rightarrow> bool" where
  "is_console ev = (case ev of ConsoleError e \<Rightarrow> True | _ \<Rightarrow> False)"

text \<open>The rows handed to \<open>insert\<close> during a run, and the \<open>id\<close> property of a row.\<close>

fun inserted_rows :: "event list \<Rightarrow> payload list" where
  "inserted_rows [] = []"
| "inserted_rows (FromInsert t p r # evs) = p # inserted_rows evs"
| "inserted_rows (ev # evs) = inserted_rows evs"

fun uploaded_names :: "event list \<Rightarrow> (jsstring \<times> jsstring) list" where
  "uploaded_names [] = []"
| "uploaded_names (StorageUpload b n f r # evs) = (b, n) # uploaded_names evs"
| "uploaded_names (ev # evs) = uploaded_names evs"

definition row_id :: "payload \<Rightarrow> jsval option" where
  "row_id p = map_of p ''id''"

text \<open>
  The text form of the identifiers \<open>uuidv4()\<close> returns: 36 code units, each a lowercase
  hexadecimal digit or a hyphen.
\<close>

definition is_uuid :: "jsstring \<Rightarrow> bool" where
  "is_uuid u = (length u = 36 \<and> list_all (\<lambda>c. c \<in> set (js ''0123456789abcdef-'')) u)"

text \<open>
  Lowercasing a string that ends in \<open>u\<close> leaves that ending as it is (true of the built-in
  for every \<open>u\<close> made of lowercase hexadecimal digits and hyphens).
\<close>

definition keeps_suffix :: "(jsstring \<Rightarrow> jsstring) \<Rightarrow> jsstring \<Rightarrow> bool" where
  "keeps_suffix toLowerCase u = (\<forall>p. \<exists>q. toLowerCase (p @ u) = q @ u)"

text \<open>Newest first: \<open>created_at\<close> never increases along the list.\<close>

definition newest_sorted :: "entry list \<Rightarrow> bool" where
  "newest_sorted es = sorted_wrt (\<lambda>a b. created_at b \<le> created_at a) es"

section \<open>A scripted backend for running examples\<close>

text \<open>
  The hidden state counts the network calls answered so far.  Call number \<open>k\<close> fails with
  message \<open>m\<close>; every other call succeeds: an upload returns the requested name as path, a
  select returns \<open>rows\<close>.  \<open>k = 0\<close> never fails.  No select of this backend throws: a
  failing select returns its error.
\<close>

definition scripted :: "nat \<Rightarrow> jsstring \<Rightarrow> entry list \<Rightarrow> nat client" where
  "scripted k m rows =
     \<lparr>storage_upload = (\<lambda>bucket nm f n.
          (if Suc n = k then Failure \<lparr>message = m\<rparr> else Success \<lparr>path = nm\<rparr>, Suc n)),
      storage_getPublicUrl = (\<lambda>bucket p. js ''https://cdn/'' @ bucket @ js ''/'' @ p),
      from_insert = (\<lambda>tbl p n.
          (if Suc n = k then Failure \<lparr>message = m\<rparr> else Success (), Suc n)),
      from_select = (\<lambda>q n.
          (Inr (if Suc n = k then Failure \<lparr>message = m\<rparr> else Success rows), Suc n))\<rparr>"

text \<open>The same backend with no failing call, except that every select throws \<open>m\<close>.\<close>

definition scripted_throwing :: "jsstring \<Rightarrow> nat client" where
  "scripted_throwing m =
     (scripted 0 [] [])\<lparr>from_select := (\<lambda>q n. (Inl \<lparr>message = m\<rparr>, Suc n))\<rparr>"

definition demo_uuid :: jsstring where
  "demo_uuid = js ''3f2b8c1e-9a4d-4e6f-8b7a-0c1d2e3f4a5b''"

definition demo_world :: "nat world" where
  "demo_world = \<lparr>backend = 0, uuid_source = (\<lambda>n. demo_uuid), uuid_calls = 0, trace = []\<rparr>"

definition japan :: country where
  "japan = \<lparr>code = js ''JP'', name = js ''Japan''\<rparr>"

definition photo_png :: jsfile where
  "photo_png = \<lparr>file_name = js ''photo.png'', file_bytes = [0x89, 0x50]\<rparr>"

definition song_mp3 :: jsfile where
  "song_mp3 = \<lparr>file_name = js ''song.mp3'', file_bytes = [0x49, 0x44]\<rparr>"

definition demo_entry :: "jsstring \<Rightarrow> int \<Rightarrow> entry" where
  "demo_entry cc t =
     \<lparr>entry_id = js ''e'', country_code = cc, entry_title = None, entry_info = None,
      image_url = None, audio_url = None, created_at = t\<rparr>"

definition demo_form :: app_state where
  "demo_form =
     \<lparr>entries = [demo_entry (js ''DE'') 1], loading = False, activeCountry = Some japan,
      showForm = True, uploading = False, title = js ''Song'', info = js ''hi'',
      imageFile = Some photo_png, audioFile = Some song_mp3, error = js ''old''\<rparr>"

definition other_uuid :: jsstring where
  "other_uuid = js ''7c9e6679-7425-40de-944b-e07fc1f90ae7''"

definition photo_noext :: jsfile where
  "photo_noext = \<lparr>file_name = js ''photo'', file_bytes = [0x89, 0x50]\<rparr>"

definition demo_base_name :: jsstring where
  "demo_base_name = js ''jp-song-3f2b8c1e-9a4d-4e6f-8b7a-0c1d2e3f4a5b''"

definition demo_image_name :: jsstring where
  "demo_image_name = js ''jp-song-3f2b8c1e-9a4d-4e6f-8b7a-0c1d2e3f4a5b.png''"

definition demo_audio_name :: jsstring where
  "demo_audio_name = js ''jp-song-3f2b8c1e-9a4d-4e6f-8b7a-0c1d2e3f4a5b.mp3''"

definition demo_row :: payload where
  "demo_row =
     [(''country_code'', JStr (js ''JP'')),
      (''title'', JStr (js ''Song'')),
      (''info'', JStr (js ''hi'')),
      (''image_url'', JStr (js ''https://cdn/images/jp-song-3f2b8c1e-9a4d-4e6f-8b7a-0c1d2e3f4a5b.png'')),
      (''audio_url'', JStr (js ''https://cdn/audio/jp-song-3f2b8c1e-9a4d-4e6f-8b7a-0c1d2e3f4a5b.mp3''))]"

text \<open>A feature whose only name property is an empty \<open>NAME\<close> and that has a fallback code.\<close>

definition demo_props :: properties where
  "demo_props = (\<lambda>k. None)(''NAME'' := Some [], ''ISO_A2'' := Some (js ''FR''))"

text \<open>
  The example string of the specification: C, U+00F4, \<open>te d\<close>, an apostrophe, \<open>Ivoire!! 2024\<close>.
\<close>

definition cote_divoire :: jsstring where
  "cote_divoire = js ''C'' @ [0xF4] @ js ''te d'' @ [0x27] @ js ''Ivoire!! 2024''"

section \<open>Library facts about the JavaScript built-ins\<close>

lemma js_append: "js a @ js b = js (a @ b)"
  by (simp add: js_def)

lemma filter_loop_append: "filter_loop p xs acc = acc @ filter p xs"
  by (induction xs arbitrary: acc) simp_all

lemma array_filter_filter: "array_filter p xs = filter p xs"
  by (simp add: array_filter_def filter_loop_append)

section \<open>Filtering the record store by country\<close>

text \<open>
  Claim C4.  \<open>countryEntries\<close> (the filter-by-country view) is a function of the entries
  list and the selection alone.  With a country selected it returns exactly the entries
  whose \<open>country_code\<close> equals the selected code, in their original relative order (it is a
  subsequence of the list); with no country selected it returns the empty list whatever
  the entries are.
\<close>

theorem countryEntries_subsequence:
  "countryEntries es None = [] \<and>
   countryEntries es (Some c) = filter (\<lambda>e. country_code e = code c) es \<and>
   subseq (countryEntries es (Some c)) es"
  by (simp add: countryEntries_def array_filter_filter)

text \<open>The example of the specification: codes DE, FR, DE queried for DE and for JP.\<close>

lemma countryEntries_example:
  "countryEntries [demo_entry (js ''DE'') 3, demo_entry (js ''FR'') 2, demo_entry (js ''DE'') 1]
     (Some \<lparr>code = js ''DE'', name = js ''Deutschland''\<rparr>)
   = [demo_entry (js ''DE'') 3, demo_entry (js ''DE'') 1]"
  "countryEntries [demo_entry (js ''DE'') 3, demo_entry (js ''FR'') 2, demo_entry (js ''DE'') 1]
     (Some japan) = []"
  by (simp_all add: countryEntries_def array_filter_def demo_entry_def japan_def js_def)

section \<open>Country resolver\<close>

text \<open>
  Claim C8.  For every property bag the resolver's \<open>code\<close> is the first non-empty value
  among the keys \<open>ISO_A2_EH\<close>, \<open>ISO_A2\<close> (in that order) and the empty string when neither
  has one; its \<open>name\<close> is the first non-empty value among \<open>NAME\<close>, \<open>ADMIN\<close>, \<open>NAME_LONG\<close>
  and \<open>Unbenannt\<close> when all three are empty or missing.  The resolver is a total function
  of the property bag: it has no failure case.
\<close>

theorem resolveCountry_first_nonempty:
  "code (resolveCountry p) = firstNonEmpty [''ISO_A2_EH'', ''ISO_A2''] p []
   \<and> name (resolveCountry p) = firstNonEmpty [''NAME'', ''ADMIN'', ''NAME_LONG''] p (js ''Unbenannt'')
   \<and> (\<not> truthy (p ''ISO_A2_EH'') \<and> \<not> truthy (p ''ISO_A2'') \<longrightarrow> code (resolveCountry p) = [])
   \<and> (\<not> truthy (p ''NAME'') \<and> \<not> truthy (p ''ADMIN'') \<and> \<not> truthy (p ''NAME_LONG'') \<longrightarrow>
        name (resolveCountry p) = js ''Unbenannt'')"
  by (simp add: resolveCountry_def optOr_def optOrStr_def truthy_def strOr_def split: option.splits)

theorem resolveCountry_first_nonempty_witness:
  "\<not> truthy (demo_props ''NAME'') \<and> \<not> truthy (demo_props ''ADMIN'') \<and>
   \<not> truthy (demo_props ''NAME_LONG'') \<and>
   name (resolveCountry demo_props) = js ''Unbenannt'' \<and>
   code (resolveCountry demo_props) = js ''FR'' \<and>
   \<not> truthy (Map.empty ''ISO_A2_EH'') \<and> \<not> truthy (Map.empty ''ISO_A2'') \<and>
   code (resolveCountry Map.empty) = []"
  using resolveCountry_first_nonempty [of demo_props] resolveCountry_first_nonempty [of Map.empty]
  by (simp add: demo_props_def truthy_def)

section \<open>The safe file name\<close>

lemma az_upt: "map (of_nat :: nat \<Rightarrow> jschar) [97..<123] = js ''abcdefghijklmnopqrstuvwxyz''"
  by (simp add: js_def)

lemma digits_upt: "map (of_nat :: nat \<Rightarrow> jschar) [48..<58] = js ''0123456789''"
  by (simp add: js_def)

lemma word_in_range:
  fixes c :: jschar
  assumes "a \<le> unat c" "unat c < b"
  shows "c \<in> set (map of_nat [a..<b])"
proof -
  from assms have "unat c \<in> set [a..<b]" by simp
  then have "of_nat (unat c) \<in> (of_nat :: nat \<Rightarrow> jschar) ` set [a..<b]"
    by (rule imageI)
  then show ?thesis by simp
qed

lemma in_class_spec_safe: "in_class c \<longleftrightarrow> spec_safe c"
proof
  assume "in_class c"
  then consider "0x61 \<le> c \<and> c \<le> 0x7A" | "0x30 \<le> c \<and> c \<le> 0x39" | "c = 0x2D \<or> c = 0x5F \<or> c = 0x2E"
    unfolding in_class_def by blast
  then show "spec_safe c"
  proof cases
    case 1
    then have "97 \<le> unat c" "unat c < 123" by (simp_all add: word_le_nat_alt)
    then have "c \<in> set (map of_nat [97..<123])"
      by (rule word_in_range)
    then have "c \<in> set (js ''abcdefghijklmnopqrstuvwxyz'')" by (simp only: az_upt)
    then show ?thesis by (simp add: spec_safe_def)
  next
    case 2
    then have "48 \<le> unat c" "unat c < 58" by (simp_all add: word_le_nat_alt)
    then have "c \<in> set (map of_nat [48..<58])"
      by (rule word_in_range)
    then have "c \<in> set (js ''0123456789'')" by (simp only: digits_upt)
    then show ?thesis by (simp add: spec_safe_def)
  next
    case 3
    then have "c \<in> set (js ''-_.'')" by (auto simp: js_def)
    then show ?thesis by (simp add: spec_safe_def)
  qed
next
  assume "spec_safe c"
  then show "in_class c"
    unfolding spec_safe_def by (elim disjE) (auto simp: js_def in_class_def)
qed

subsection \<open>Object names\<close>

lemma split_nonempty: "split sep s \<noteq> []"
  by (induction s) (auto split: list.splits)

lemma last_split_no_sep: "sep \<notin> set (last (split sep s))"
  by (induction s) (auto simp: split_nonempty split: list.splits)

lemma extOr_no_dot: "0x2E \<notin> set fb \<Longrightarrow> 0x2E \<notin> set (extOr f fb)"
  using last_split_no_sep [of "0x2E" "file_name f"]
  by (simp add: extOr_def optOrStr_def pop_def strOr_def split_nonempty)

lemma cut_at_first:
  "x \<notin> set a \<Longrightarrow> x \<notin> set a' \<Longrightarrow> a @ x # r = a' @ x # r' \<Longrightarrow> a = a' \<and> r = r'"
proof (induction a arbitrary: a')
  case Nil
  then show ?case by (cases a') auto
next
  case (Cons y a)
  then show ?case by (cases a') auto
qed

lemma objectName_inj:
  assumes "0x2E \<notin> set e1" "0x2E \<notin> set e2" "objectName b1 e1 = objectName b2 e2"
  shows "b1 = b2 \<and> e1 = e2"
proof -
  from assms(3) have "rev (b1 @ 0x2E # e1) = rev (b2 @ 0x2E # e2)"
    by (simp add: objectName_def js_def)
  then have "rev e1 @ 0x2E # rev b1 = rev e2 @ 0x2E # rev b2" by simp
  moreover have "0x2E \<notin> set (rev e1)" "0x2E \<notin> set (rev e2)" using assms(1,2) by simp_all
  ultimately have "rev e1 = rev e2 \<and> rev b1 = rev b2"
    by (rule cut_at_first [rotated 2])
  then show ?thesis by simp
qed

lemma replace_unsafe_fixed: "list_all in_class u \<Longrightarrow> replace_unsafe u = u"
  by (induction u) (simp_all add: replace_unsafe_def)

lemma is_uuid_in_class: "is_uuid u \<Longrightarrow> list_all in_class u"
  unfolding is_uuid_def
  by (auto simp: list_all_iff js_def in_class_def)

lemma baseName_ends_in_ident:
  assumes "keeps_suffix lower u" "list_all in_class u"
  shows "\<exists>q. baseName lower c t u = q @ u"
proof -
  from assms(1) obtain q where
    "lower ((code c @ js ''-'' @ strOr t (js ''upload'') @ js ''-'') @ u) = q @ u"
    unfolding keeps_suffix_def by blast
  then have "baseName lower c t u = replace_unsafe q @ replace_unsafe u"
    by (simp add: baseName_def safeName_def replace_unsafe_def)
  with assms(2) show ?thesis by (simp add: replace_unsafe_fixed)
qed

lemma object_names_collision_free:
  assumes eq: "objectName (baseName lower c1 t1 u1) (extOr f1 fb)
             = objectName (baseName lower c2 t2 u2) (extOr f2 fb)"
      and fb: "0x2E \<notin> set fb"
      and u: "is_uuid u1" "is_uuid u2"
      and k: "keeps_suffix lower u1" "keeps_suffix lower u2"
  shows "u1 = u2"
proof -
  from eq fb have b: "baseName lower c1 t1 u1 = baseName lower c2 t2 u2"
    using objectName_inj extOr_no_dot by blast
  obtain q1 where q1: "baseName lower c1 t1 u1 = q1 @ u1"
    using baseName_ends_in_ident [OF k(1) is_uuid_in_class [OF u(1)]] by blast
  obtain q2 where q2: "baseName lower c2 t2 u2 = q2 @ u2"
    using baseName_ends_in_ident [OF k(2) is_uuid_in_class [OF u(2)]] by blast
  from u have "length u1 = length u2" by (simp add: is_uuid_def)
  with b q1 q2 show ?thesis by simp
qed

subsection \<open>The Latin-1 lowercasing\<close>

lemma lower_latin1_fixed: "in_class c \<Longrightarrow> lower_latin1 c = c"
  unfolding in_class_spec_safe spec_safe_def
  by (elim disjE) (auto simp: js_def lower_latin1_def)

lemma toLowerCase_latin1_keeps: "list_all in_class u \<Longrightarrow> keeps_suffix toLowerCase_latin1 u"
proof -
  assume "list_all in_class u"
  then have "map lower_latin1 u = u"
    by (induction u) (simp_all add: lower_latin1_fixed)
  then show ?thesis
    by (simp add: keeps_suffix_def toLowerCase_latin1_def)
qed

section \<open>The shape of every run of handleUpload\<close>

lemmas run_defs = handleUpload_def upload_try_def upload_def insert_row_def select_rows_def
  uuidv4_def console_error_def Let_def

lemma handleUpload_cases [consumes 1, case_names not_configured no_country no_files
    image_failed audio_failed insert_failed completed refresh_threw]:
  assumes "handleUpload lower supabase s w = (s', w')"
  obtains
    "supabase = None" "s' = s\<lparr>error := msg_not_configured\<rparr>" "w' = w"
  | cl where "supabase = Some cl" "activeCountry s = None"
      "s' = s\<lparr>error := msg_no_country\<rparr>" "w' = w"
  | cl c where "supabase = Some cl" "activeCountry s = Some c"
      "imageFile s = None \<or> audioFile s = None"
      "s' = s\<lparr>error := msg_no_files\<rparr>" "w' = w"
  | cl c img aud ident base e b1 where
      "supabase = Some cl" "activeCountry s = Some c"
      "imageFile s = Some img" "audioFile s = Some aud"
      "ident = uuid_source w (uuid_calls w)" "base = baseName lower c (title s) ident"
      "storage_upload cl (js ''images'') (objectName base (extOr img (js ''jpg''))) img (backend w)
         = (Failure e, b1)"
      "s' = s\<lparr>error := strOr (message e) msg_upload_failed, uploading := False\<rparr>"
      "w' = w\<lparr>uuid_calls := Suc (uuid_calls w), backend := b1,
             trace := trace w @
               [UuidV4 ident,
                StorageUpload (js ''images'') (objectName base (extOr img (js ''jpg''))) img (Failure e),
                ConsoleError e]\<rparr>"
  | cl c img aud ident base d1 b1 e b2 where
      "supabase = Some cl" "activeCountry s = Some c"
      "imageFile s = Some img" "audioFile s = Some aud"
      "ident = uuid_source w (uuid_calls w)" "base = baseName lower c (title s) ident"
      "storage_upload cl (js ''images'') (objectName base (extOr img (js ''jpg''))) img (backend w)
         = (Success d1, b1)"
      "storage_upload cl (js ''audio'') (objectName base (extOr aud (js ''mp3''))) aud b1
         = (Failure e, b2)"
      "s' = s\<lparr>error := strOr (message e) msg_upload_failed, uploading := False\<rparr>"
      "w' = w\<lparr>uuid_calls := Suc (uuid_calls w), backend := b2,
             trace := trace w @
               [UuidV4 ident,
                StorageUpload (js ''images'') (objectName base (extOr img (js ''jpg''))) img (Success d1),
                StorageUpload (js ''audio'') (objectName base (extOr aud (js ''mp3''))) aud (Failure e),
                ConsoleError e]\<rparr>"
  | cl c img aud ident base d1 b1 d2 b2 row e b3 where
      "supabase = Some cl" "activeCountry s = Some c"
      "imageFile s = Some img" "audioFile s = Some aud"
      "ident = uuid_source w (uuid_calls w)" "base = baseName lower c (title s) ident"
      "storage_upload cl (js ''images'') (objectName base (extOr img (js ''jpg''))) img (backend w)
         = (Success d1, b1)"
      "storage_upload cl (js ''audio'') (objectName base (extOr aud (js ''mp3''))) aud b1
         = (Success d2, b2)"
      "row = row_of c (title s) (info s)
               (storage_getPublicUrl cl (js ''images'') (path d1))
               (storage_getPublicUrl cl (js ''audio'') (path d2))"
      "from_insert cl (js ''entries'') row b2 = (Failure e, b3)"
      "s' = s\<lparr>error := strOr (message e) msg_upload_failed, uploading := False\<rparr>"
      "w' = w\<lparr>uuid_calls := Suc (uuid_calls w), backend := b3,
             trace := trace w @
               [UuidV4 ident,
                StorageUpload (js ''images'') (objectName base (extOr img (js ''jpg''))) img (Success d1),
                StorageUpload (js ''audio'') (objectName base (extOr aud (js ''mp3''))) aud (Success d2),
                FromInsert (js ''entries'') row (Failure e),
                ConsoleError e]\<rparr>"
  | cl c img aud ident base d1 b1 d2 b2 row b3 refreshed b4 where
      "supabase = Some cl" "activeCountry s = Some c"
      "imageFile s = Some img" "audioFile s = Some aud"
      "ident = uuid_source w (uuid_calls w)" "base = baseName lower c (title s) ident"
      "storage_upload cl (js ''images'') (objectName base (extOr img (js ''jpg''))) img (backend w)
         = (Success d1, b1)"
      "storage_upload cl (js ''audio'') (objectName base (extOr aud (js ''mp3''))) aud b1
         = (Success d2, b2)"
      "row = row_of c (title s) (info s)
               (storage_getPublicUrl cl (js ''images'') (path d1))
               (storage_getPublicUrl cl (js ''audio'') (path d2))"
      "from_insert cl (js ''entries'') row b2 = (Success (), b3)"
      "from_select cl newest_first b3 = (Inr refreshed, b4)"
      "s' = s\<lparr>error := [], title := [], info := [], imageFile := None, audioFile := None,
             entries := dataOrEmpty refreshed, showForm := False, uploading := False\<rparr>"
      "w' = w\<lparr>uuid_calls := Suc (uuid_calls w), backend := b4,
             trace := trace w @
               [UuidV4 ident,
                StorageUpload (js ''images'') (objectName base (extOr img (js ''jpg''))) img (Success d1),
                StorageUpload (js ''audio'') (objectName base (extOr aud (js ''mp3''))) aud (Success d2),
                FromInsert (js ''entries'') row (Success ()),
                FromSelect newest_first refreshed]\<rparr>"
  | cl c img aud ident base d1 b1 d2 b2 row b3 e b4 where
      "supabase = Some cl" "activeCountry s = Some c"
      "imageFile s = Some img" "audioFile s = Some aud"
      "ident = uuid_source w (uuid_calls w)" "base = baseName lower c (title s) ident"
      "storage_upload cl (js ''images'') (objectName base (extOr img (js ''jpg''))) img (backend w)
         = (Success d1, b1)"
      "storage_upload cl (js ''audio'') (objectName base (extOr aud (js ''mp3''))) aud b1
         = (Success d2, b2)"
      "row = row_of c (title s) (info s)
               (storage_getPublicUrl cl (js ''images'') (path d1))
               (storage_getPublicUrl cl (js ''audio'') (path d2))"
      "from_insert cl (js ''entries'') row b2 = (Success (), b3)"
      "from_select cl newest_first b3 = (Inl e, b4)"
      "s' = s\<lparr>title := [], info := [], imageFile := None, audioFile := None,
             error := strOr (message e) msg_upload_failed, uploading := False\<rparr>"
      "w' = w\<lparr>uuid_calls := Suc (uuid_calls w), backend := b4,
             trace := trace w @
               [UuidV4 ident,
                StorageUpload (js ''images'') (objectName base (extOr img (js ''jpg''))) img (Success d1),
                StorageUpload (js ''audio'') (objectName base (extOr aud (js ''mp3''))) aud (Success d2),
                FromInsert (js ''entries'') row (Success ()),
                FromSelectThrew newest_first e,
                ConsoleError e]\<rparr>"
proof (cases supabase)
  case None
  with assms have "s' = s\<lparr>error := msg_not_configured\<rparr>" "w' = w"
    by (simp_all add: handleUpload_def)
  with None show thesis by (rule that(1))
next
  case cl: (Some cl)
  show thesis
  proof (cases "activeCountry s")
    case None
    with assms cl have "s' = s\<lparr>error := msg_no_country\<rparr>" "w' = w"
      by (simp_all add: handleUpload_def)
    with cl None show thesis by (rule that(2))
  next
    case c: (Some c)
    show thesis
    proof (cases "imageFile s = None \<or> audioFile s = None")
      case True
      with assms cl c have "s' = s\<lparr>error := msg_no_files\<rparr>" "w' = w"
        by (auto simp: handleUpload_def Let_def split: option.splits)
      with cl c True show thesis by (rule that(3))
    next
      case False
      then obtain img aud where f: "imageFile s = Some img" "audioFile s = Some aud"
        by auto
      define ident where "ident = uuid_source w (uuid_calls w)"
      define base where "base = baseName lower c (title s) ident"
      obtain r1 b1 where u1:
        "storage_upload cl (js ''images'') (objectName base (extOr img (js ''jpg''))) img (backend w)
           = (r1, b1)"
        by fastforce
      show thesis
      proof (cases r1)
        case (Failure e)
        have "s' = s\<lparr>error := strOr (message e) msg_upload_failed, uploading := False\<rparr>"
          "w' = w\<lparr>uuid_calls := Suc (uuid_calls w), backend := b1,
             trace := trace w @
               [UuidV4 ident,
                StorageUpload (js ''images'') (objectName base (extOr img (js ''jpg''))) img (Failure e),
                ConsoleError e]\<rparr>"
          using assms cl c f u1 Failure
          by (simp_all add: run_defs ident_def [symmetric] base_def [symmetric])
        with cl c f ident_def base_def u1 [unfolded Failure] show thesis by (rule that(4))
      next
        case d1: (Success d1)
        obtain r2 b2 where u2:
          "storage_upload cl (js ''audio'') (objectName base (extOr aud (js ''mp3''))) aud b1
             = (r2, b2)"
          by fastforce
        show thesis
        proof (cases r2)
          case (Failure e)
          have "s' = s\<lparr>error := strOr (message e) msg_upload_failed, uploading := False\<rparr>"
            "w' = w\<lparr>uuid_calls := Suc (uuid_calls w), backend := b2,
               trace := trace w @
                 [UuidV4 ident,
                  StorageUpload (js ''images'') (objectName base (extOr img (js ''jpg''))) img (Success d1),
                  StorageUpload (js ''audio'') (objectName base (extOr aud (js ''mp3''))) aud (Failure e),
                  ConsoleError e]\<rparr>"
            using assms cl c f u1 d1 u2 Failure
            by (simp_all add: run_defs ident_def [symmetric] base_def [symmetric])
          with cl c f ident_def base_def u1 [unfolded d1] u2 [unfolded Failure]
          show thesis by (rule that(5))
        next
          case d2: (Success d2)
          define row where "row = row_of c (title s) (info s)
               (storage_getPublicUrl cl (js ''images'') (path d1))
               (storage_getPublicUrl cl (js ''audio'') (path d2))"
          obtain r3 b3 where u3: "from_insert cl (js ''entries'') row b2 = (r3, b3)"
            by fastforce
          show thesis
          proof (cases r3)
            case (Failure e)
            have "s' = s\<lparr>error := strOr (message e) msg_upload_failed, uploading := False\<rparr>"
              "w' = w\<lparr>uuid_calls := Suc (uuid_calls w), backend := b3,
                 trace := trace w @
                   [UuidV4 ident,
                    StorageUpload (js ''images'') (objectName base (extOr img (js ''jpg''))) img (Success d1),
                    StorageUpload (js ''audio'') (objectName base (extOr aud (js ''mp3''))) aud (Success d2),
                    FromInsert (js ''entries'') row (Failure e),
                    ConsoleError e]\<rparr>"
              using assms cl c f u1 d1 u2 d2 u3 Failure
              by (simp_all add: run_defs ident_def [symmetric] base_def [symmetric] row_def [symmetric])
            with cl c f ident_def base_def u1 [unfolded d1] u2 [unfolded d2] row_def
              u3 [unfolded Failure]
            show thesis by (rule that(6))
          next
            case ok: (Success u)
            from u3 ok have u3': "from_insert cl (js ''entries'') row b2 = (Success (), b3)"
              by simp
            obtain a4 b4 where u4: "from_select cl newest_first b3 = (a4, b4)"
              by fastforce
            show thesis
            proof (cases a4)
              case (Inr refreshed)
              have "s' = s\<lparr>error := [], title := [], info := [], imageFile := None,
                   audioFile := None, entries := dataOrEmpty refreshed, showForm := False,
                   uploading := False\<rparr>"
                "w' = w\<lparr>uuid_calls := Suc (uuid_calls w), backend := b4,
                   trace := trace w @
                     [UuidV4 ident,
                      StorageUpload (js ''images'') (objectName base (extOr img (js ''jpg''))) img (Success d1),
                      StorageUpload (js ''audio'') (objectName base (extOr aud (js ''mp3''))) aud (Success d2),
                      FromInsert (js ''entries'') row (Success ()),
                      FromSelect newest_first refreshed]\<rparr>"
                using assms cl c f u1 d1 u2 d2 u3 ok u4 Inr
                by (simp_all add: run_defs ident_def [symmetric] base_def [symmetric] row_def [symmetric])
              then show thesis
                using cl c f ident_def base_def u1 [unfolded d1] u2 [unfolded d2] row_def u3'
                  u4 [unfolded Inr]
                by (intro that(7))
            next
              case (Inl e)
              have "s' = s\<lparr>title := [], info := [], imageFile := None, audioFile := None,
                   error := strOr (message e) msg_upload_failed, uploading := False\<rparr>"
                "w' = w\<lparr>uuid_calls := Suc (uuid_calls w), backend := b4,
                   trace := trace w @
                     [UuidV4 ident,
                      StorageUpload (js ''images'') (objectName base (extOr img (js ''jpg''))) img (Success d1),
                      StorageUpload (js ''audio'') (objectName base (extOr aud (js ''mp3''))) aud (Success d2),
                      FromInsert (js ''entries'') row (Success ()),
                      FromSelectThrew newest_first e,
                      ConsoleError e]\<rparr>"
                using assms cl c f u1 d1 u2 d2 u3 ok u4 Inl
                by (simp_all add: run_defs ident_def [symmetric] base_def [symmetric] row_def [symmetric])
              then show thesis
                using cl c f ident_def base_def u1 [unfolded d1] u2 [unfolded d2] row_def u3'
                  u4 [unfolded Inl]
                by (intro that(8))
            qed
          qed
        qed
      qed
    qed
  qed
qed

lemmas ev_defs = step_failure_def is_remove_def is_select_def is_network_def
  is_uuid_event_def error_of_def data_of_def insert_ok_def is_console_def

section \<open>Example runs against the scripted backend\<close>

lemmas name_defs = baseName_def objectName_def extOr_def safeName_def replace_unsafe_def
  toLowerCase_latin1_def lower_latin1_def in_class_def optOrStr_def strOr_def pop_def js_def

lemma demo_base: "baseName toLowerCase_latin1 japan (js ''Song'') demo_uuid = demo_base_name"
  by (simp add: name_defs japan_def demo_uuid_def demo_base_name_def)

lemma demo_names:
  "objectName demo_base_name (extOr photo_png (js ''jpg'')) = demo_image_name"
  "objectName demo_base_name (extOr song_mp3 (js ''mp3'')) = demo_audio_name"
  "objectName demo_base_name (extOr photo_noext (js ''jpg'')) = demo_base_name @ js ''.photo''"
  by (simp_all add: name_defs photo_png_def song_mp3_def photo_noext_def demo_base_name_def
      demo_image_name_def demo_audio_name_def)

lemma demo_row: "row_of japan (js ''Song'') (js ''hi'')
     (js ''https://cdn/'' @ js ''images'' @ js ''/'' @ demo_image_name)
     (js ''https://cdn/'' @ js ''audio'' @ js ''/'' @ demo_audio_name) = demo_row"
  by (simp add: row_of_def demo_row_def japan_def strOrNull_def js_def demo_image_name_def
      demo_audio_name_def)

lemma demo_form_sel:
  "entries demo_form = [demo_entry (js ''DE'') 1]" "activeCountry demo_form = Some japan"
  "showForm demo_form" "title demo_form = js ''Song''" "info demo_form = js ''hi''"
  "imageFile demo_form = Some photo_png" "audioFile demo_form = Some song_mp3"
  "error demo_form = js ''old''" "\<not> uploading demo_form" "\<not> loading demo_form"
  by (simp_all add: demo_form_def)

lemma demo_world_sel:
  "trace demo_world = []" "uuid_calls demo_world = 0" "uuid_source demo_world n = demo_uuid"
  "backend demo_world = 0"
  by (simp_all add: demo_world_def)

lemmas demo_simps = run_defs scripted_def demo_world_def demo_form_def demo_base demo_names
  demo_row

lemma demo_run_image_fails:
  "handleUpload toLowerCase_latin1 (Some (scripted (Suc 0) m rows)) demo_form demo_world =
     (demo_form\<lparr>error := strOr m msg_upload_failed\<rparr>,
      \<lparr>backend = 1, uuid_source = (\<lambda>n. demo_uuid), uuid_calls = 1,
       trace = [UuidV4 demo_uuid,
                StorageUpload (js ''images'') demo_image_name photo_png (Failure \<lparr>message = m\<rparr>),
                ConsoleError \<lparr>message = m\<rparr>]\<rparr>)"
  by (simp add: demo_simps)

lemma demo_run_insert_fails:
  "handleUpload toLowerCase_latin1 (Some (scripted 3 m rows)) demo_form demo_world =
     (demo_form\<lparr>error := strOr m msg_upload_failed\<rparr>,
      \<lparr>backend = 3, uuid_source = (\<lambda>n. demo_uuid), uuid_calls = 1,
       trace = [UuidV4 demo_uuid,
                StorageUpload (js ''images'') demo_image_name photo_png
                  (Success \<lparr>path = demo_image_name\<rparr>),
                StorageUpload (js ''audio'') demo_audio_name song_mp3
                  (Success \<lparr>path = demo_audio_name\<rparr>),
                FromInsert (js ''entries'') demo_row (Failure \<lparr>message = m\<rparr>),
                ConsoleError \<lparr>message = m\<rparr>]\<rparr>)"
  by (simp add: demo_simps)

lemma demo_run_completes:
  "handleUpload toLowerCase_latin1 (Some (scripted 0 m rows)) demo_form demo_world =
     (demo_form\<lparr>error := [], title := [], info := [], imageFile := None, audioFile := None,
        entries := rows, showForm := False\<rparr>,
      \<lparr>backend = 4, uuid_source = (\<lambda>n. demo_uuid), uuid_calls = 1,
       trace = [UuidV4 demo_uuid,
                StorageUpload (js ''images'') demo_image_name photo_png
                  (Success \<lparr>path = demo_image_name\<rparr>),
                StorageUpload (js ''audio'') demo_audio_name song_mp3
                  (Success \<lparr>path = demo_audio_name\<rparr>),
                FromInsert (js ''entries'') demo_row (Success ()),
                FromSelect newest_first (Success rows)]\<rparr>)"
  by (simp add: demo_simps dataOrEmpty_def data_of_def)

lemma demo_run_refresh_fails:
  "handleUpload toLowerCase_latin1 (Some (scripted 4 m rows)) demo_form demo_world =
     (demo_form\<lparr>error := [], title := [], info := [], imageFile := None, audioFile := None,
        entries := [], showForm := False\<rparr>,
      \<lparr>backend = 4, uuid_source = (\<lambda>n. demo_uuid), uuid_calls = 1,
       trace = [UuidV4 demo_uuid,
                StorageUpload (js ''images'') demo_image_name photo_png
                  (Success \<lparr>path = demo_image_name\<rparr>),
                StorageUpload (js ''audio'') demo_audio_name song_mp3
                  (Success \<lparr>path = demo_audio_name\<rparr>),
                FromInsert (js ''entries'') demo_row (Success ()),
                FromSelect newest_first (Failure \<lparr>message = m\<rparr>)]\<rparr>)"
  by (simp add: demo_simps dataOrEmpty_def data_of_def)

lemma demo_run_refresh_throws:
  "handleUpload toLowerCase_latin1 (Some (scripted_throwing m)) demo_form demo_world =
     (demo_form\<lparr>title := [], info := [], imageFile := None, audioFile := None,
        error := strOr m msg_upload_failed\<rparr>,
      \<lparr>backend = 4, uuid_source = (\<lambda>n. demo_uuid), uuid_calls = 1,
       trace = [UuidV4 demo_uuid,
                StorageUpload (js ''images'') demo_image_name photo_png
                  (Success \<lparr>path = demo_image_name\<rparr>),
                StorageUpload (js ''audio'') demo_audio_name song_mp3
                  (Success \<lparr>path = demo_audio_name\<rparr>),
                FromInsert (js ''entries'') demo_row (Success ()),
                FromSelectThrew newest_first \<lparr>message = m\<rparr>,
                ConsoleError \<lparr>message = m\<rparr>]\<rparr>)"
  by (simp add: demo_simps scripted_throwing_def)

lemma demo_run_noext:
  "trace (snd (handleUpload toLowerCase_latin1 (Some (scripted (Suc 0) m rows))
                 (demo_form\<lparr>imageFile := Some photo_noext\<rparr>) demo_world)) =
     [UuidV4 demo_uuid,
      StorageUpload (js ''images'') (demo_base_name @ js ''.photo'') photo_noext
        (Failure \<lparr>message = m\<rparr>),
      ConsoleError \<lparr>message = m\<rparr>]"
  by (simp add: demo_simps)


section \<open>The safe file name and the base name of the pipeline\<close>

text \<open>
  Claim C6.  For every input string, \<open>safeName\<close> is: lowercase the string, then replace every
  code unit that is not a lowercase letter, a digit, a hyphen, an underscore or a full stop
  by a hyphen; so its result contains only such characters.  Every object name the
  pipeline uploads starts with \<open>safeName\<close> of the country code, the title (or \<open>upload\<close>
  when the title is empty) and the identifier, joined by hyphens, followed by a full stop.
\<close>

theorem safeName_spec:
  "safeName lower str = spec_safeName lower str
   \<and> list_all spec_safe (safeName lower str)
   \<and> baseName lower c ttl ident =
        safeName lower (code c @ js ''-'' @ (if ttl = [] then js ''upload'' else ttl) @ js ''-'' @ ident)
   \<and> (handleUpload lower supabase s w = (s', w') \<and> activeCountry s = Some c \<longrightarrow>
        list_all (\<lambda>(b, n). prefix
            (safeName lower (code c @ js ''-'' @ (if title s = [] then js ''upload'' else title s) @
               js ''-'' @ uuid_source w (uuid_calls w)) @ js ''.'') n)
          (uploaded_names (emitted w w')))"
proof -
  have a: "safeName lower str = spec_safeName lower str"
    by (simp add: safeName_def spec_safeName_def replace_unsafe_def in_class_spec_safe)
  have "spec_safe (of_char CHR ''-'')"
    by (simp add: spec_safe_def js_def)
  then have "list_all spec_safe (map (\<lambda>c. if spec_safe c then c else of_char CHR ''-'') xs)" for xs
    by (induction xs) simp_all
  then have "list_all spec_safe (spec_safeName lower str)"
    by (simp only: spec_safeName_def)
  with a have b: "list_all spec_safe (safeName lower str)" by simp
  have c: "baseName lower c ttl ident =
        safeName lower (code c @ js ''-'' @ (if ttl = [] then js ''upload'' else ttl) @ js ''-'' @ ident)"
    for ttl ident
    by (simp add: baseName_def strOr_def)
  have d: "list_all (\<lambda>(b, n). prefix
            (safeName lower (code c @ js ''-'' @ (if title s = [] then js ''upload'' else title s) @
               js ''-'' @ uuid_source w (uuid_calls w)) @ js ''.'') n)
          (uploaded_names (emitted w w'))"
    if run: "handleUpload lower supabase s w = (s', w')" and ac: "activeCountry s = Some c"
    using run
    by (cases rule: handleUpload_cases)
       (use ac in \<open>simp_all add: emitted_def objectName_def baseName_def strOr_def\<close>)
  from a b c d show ?thesis by blast
qed

theorem safeName_spec_witness:
  "safeName toLowerCase_latin1 cote_divoire = js ''c-te-d-ivoire---2024''
   \<and> list_all spec_safe (js ''c-te-d-ivoire---2024'')
   \<and> activeCountry demo_form = Some japan
   \<and> uploaded_names (emitted demo_world
        (snd (handleUpload toLowerCase_latin1 (Some (scripted 0 [] [])) demo_form demo_world)))
      = [(js ''images'', demo_image_name), (js ''audio'', demo_audio_name)]
   \<and> prefix
        (safeName toLowerCase_latin1 (js ''JP'' @ js ''-'' @ js ''Song'' @ js ''-'' @ demo_uuid) @
           js ''.'')
        demo_image_name
   \<and> prefix
        (safeName toLowerCase_latin1 (js ''JP'' @ js ''-'' @ js ''Song'' @ js ''-'' @ demo_uuid) @
           js ''.'')
        demo_audio_name"
proof -
  have e: "safeName toLowerCase_latin1 cote_divoire = js ''c-te-d-ivoire---2024''"
    by (simp add: cote_divoire_def safeName_def replace_unsafe_def toLowerCase_latin1_def
        lower_latin1_def in_class_def js_def)
  have n: "uploaded_names (emitted demo_world
        (snd (handleUpload toLowerCase_latin1 (Some (scripted 0 [] [])) demo_form demo_world)))
      = [(js ''images'', demo_image_name), (js ''audio'', demo_audio_name)]"
    by (simp add: demo_run_completes emitted_def demo_world_sel)
  have t: "title demo_form = js ''Song''" "activeCountry demo_form = Some japan"
    "uuid_source demo_world (uuid_calls demo_world) = demo_uuid" "code japan = js ''JP''"
    "js ''Song'' \<noteq> []"
    by (simp_all add: demo_form_sel demo_world_sel japan_def js_def)
  have "list_all spec_safe (safeName toLowerCase_latin1 cote_divoire)"
    using safeName_spec [of toLowerCase_latin1 cote_divoire] by blast
  then have l: "list_all spec_safe (js ''c-te-d-ivoire---2024'')"
    by (simp only: e)
  from safeName_spec [of toLowerCase_latin1 cote_divoire japan "[]" "[]"
      "Some (scripted 0 [] [])" demo_form demo_world
      "fst (handleUpload toLowerCase_latin1 (Some (scripted 0 [] [])) demo_form demo_world)"
      "snd (handleUpload toLowerCase_latin1 (Some (scripted 0 [] [])) demo_form demo_world)"]
  have p: "prefix
        (safeName toLowerCase_latin1 (js ''JP'' @ js ''-'' @ js ''Song'' @ js ''-'' @ demo_uuid) @
           js ''.'')
        demo_image_name
   \<and> prefix
        (safeName toLowerCase_latin1 (js ''JP'' @ js ''-'' @ js ''Song'' @ js ''-'' @ demo_uuid) @
           js ''.'')
        demo_audio_name"
    by (simp add: n t)
  from e l t(2) n p show ?thesis by (simp only: simp_thms)
qed


section \<open>The upload pipeline\<close>

text \<open>
  Claim C1, as amended.  In every run of \<open>handleUpload\<close> in which the image upload, the audio
  upload or the row insert answers with an error, that call is the last one of the run
  (it is followed only by the logging of the error, so no later step is attempted and
  every earlier step had succeeded); the form's error text is the error's message, or the
  fixed text \<open>Upload fehlgeschlagen.\<close> when that message is empty; no deletion call and no
  refresh query is issued; the entries list, and with it the filter-by-country view, is
  what it was before the run.  This covers the failed row insert after two successful
  uploads.
\<close>

theorem handleUpload_failed_step_aborts:
  assumes run: "handleUpload lower supabase s w = (s', w')"
      and ev: "ev \<in> set (emitted w w')"
      and fail: "step_failure ev = Some e"
  shows "suffix [ev, ConsoleError e] (emitted w w')
       \<and> last (filter is_network (emitted w w')) = ev
       \<and> list_all (\<lambda>x. step_failure x = None) (butlast (butlast (emitted w w')))
       \<and> error s' = strOr (message e) msg_upload_failed
       \<and> list_all (\<lambda>x. \<not> is_remove x \<and> \<not> is_select x) (emitted w w')
       \<and> entries s' = entries s
       \<and> countryEntries (entries s') (activeCountry s') = countryEntries (entries s) (activeCountry s)"
  using run
proof (cases rule: handleUpload_cases)
  case not_configured
  with ev show ?thesis by (simp add: emitted_def)
next
  case (no_country cl)
  with ev show ?thesis by (simp add: emitted_def)
next
  case (no_files cl c)
  with ev show ?thesis by (simp add: emitted_def)
next
  case (image_failed cl c img aud ident base e' b1)
  with ev fail show ?thesis by (auto simp: emitted_def ev_defs suffix_def)
next
  case (audio_failed cl c img aud ident base d1 b1 e' b2)
  with ev fail show ?thesis by (auto simp: emitted_def ev_defs suffix_def)
next
  case (insert_failed cl c img aud ident base d1 b1 d2 b2 row e' b3)
  with ev fail show ?thesis by (auto simp: emitted_def ev_defs suffix_def)
next
  case (completed cl c img aud ident base d1 b1 d2 b2 row b3 refreshed b4)
  with ev fail show ?thesis by (auto simp: emitted_def ev_defs)
next
  case (refresh_threw cl c img aud ident base d1 b1 d2 b2 row b3 e' b4)
  with ev fail show ?thesis by (auto simp: emitted_def ev_defs)
qed

theorem handleUpload_failed_step_aborts_witness:
  "FromInsert (js ''entries'') demo_row (Failure \<lparr>message = js ''denied''\<rparr>)
     \<in> set (emitted demo_world
          (snd (handleUpload toLowerCase_latin1 (Some (scripted 3 (js ''denied'') [])) demo_form
             demo_world)))
   \<and> step_failure (FromInsert (js ''entries'') demo_row (Failure \<lparr>message = js ''denied''\<rparr>))
       = Some \<lparr>message = js ''denied''\<rparr>
   \<and> error (fst (handleUpload toLowerCase_latin1 (Some (scripted 3 (js ''denied'') [])) demo_form
         demo_world)) = js ''denied''
   \<and> entries (fst (handleUpload toLowerCase_latin1 (Some (scripted 3 (js ''denied'') [])) demo_form
         demo_world)) = entries demo_form
   \<and> suffix [FromInsert (js ''entries'') demo_row (Failure \<lparr>message = js ''denied''\<rparr>),
              ConsoleError \<lparr>message = js ''denied''\<rparr>]
        (emitted demo_world
          (snd (handleUpload toLowerCase_latin1 (Some (scripted 3 (js ''denied'') [])) demo_form
             demo_world)))"
proof -
  have ev: "FromInsert (js ''entries'') demo_row (Failure \<lparr>message = js ''denied''\<rparr>)
     \<in> set (emitted demo_world
          (snd (handleUpload toLowerCase_latin1 (Some (scripted 3 (js ''denied'') [])) demo_form
             demo_world)))"
    by (simp add: demo_run_insert_fails emitted_def demo_world_sel)
  have fail: "step_failure (FromInsert (js ''entries'') demo_row (Failure \<lparr>message = js ''denied''\<rparr>))
       = Some \<lparr>message = js ''denied''\<rparr>"
    by (simp add: step_failure_def error_of_def)
  have m: "strOr (js ''denied'') msg_upload_failed = js ''denied''"
    by (simp add: strOr_def js_def)
  from handleUpload_failed_step_aborts [OF prod.collapse [symmetric] ev fail] ev fail m
  show ?thesis by simp
qed

text \<open>
  The claim as first stated says the failing step's message itself is the error text.  A
  row insert that fails with an empty message shows the fixed text instead.
\<close>

theorem handleUpload_empty_message_counterexample:
  "last (butlast (emitted demo_world
      (snd (handleUpload toLowerCase_latin1 (Some (scripted 3 [] [])) demo_form demo_world))))
     = FromInsert (js ''entries'') demo_row (Failure \<lparr>message = []\<rparr>)
   \<and> error (fst (handleUpload toLowerCase_latin1 (Some (scripted 3 [] [])) demo_form demo_world))
     = js ''Upload fehlgeschlagen.''
   \<and> error (fst (handleUpload toLowerCase_latin1 (Some (scripted 3 [] [])) demo_form demo_world))
     \<noteq> message \<lparr>message = []\<rparr>"
  by (simp add: demo_run_insert_fails emitted_def demo_world_sel strOr_def msg_upload_failed_def
      js_def)


lemmas msg_defs = msg_not_configured_def msg_no_country_def msg_no_files_def msg_upload_failed_def

text \<open>
  Claim C2.  \<open>handleUpload\<close> checks three preconditions in this order: the backend client
  is configured, a country is selected, both the image file and the audio file are present.
  When one fails the run sets that check's own error message (the three messages are
  pairwise different and not empty) and returns with the outside world untouched, so
  before any network call.  In particular a run with no country selected, and a run with
  a country and an image but no audio file, issue no call at all.
\<close>

theorem handleUpload_preconditions:
  "(supabase = None \<longrightarrow>
      handleUpload lower supabase s w = (s\<lparr>error := msg_not_configured\<rparr>, w))
   \<and> (supabase \<noteq> None \<and> activeCountry s = None \<longrightarrow>
      handleUpload lower supabase s w = (s\<lparr>error := msg_no_country\<rparr>, w))
   \<and> (supabase \<noteq> None \<and> activeCountry s \<noteq> None \<and> (imageFile s = None \<or> audioFile s = None) \<longrightarrow>
      handleUpload lower supabase s w = (s\<lparr>error := msg_no_files\<rparr>, w))
   \<and> distinct [[], msg_not_configured, msg_no_country, msg_no_files]
   \<and> (activeCountry s = None \<longrightarrow> emitted w (snd (handleUpload lower supabase s w)) = [])
   \<and> (activeCountry s \<noteq> None \<and> imageFile s \<noteq> None \<and> audioFile s = None \<longrightarrow>
      emitted w (snd (handleUpload lower supabase s w)) = [])"
proof -
  have d: "distinct [[], msg_not_configured, msg_no_country, msg_no_files]"
    by (simp add: msg_defs js_def)
  obtain s' w' where run: "handleUpload lower supabase s w = (s', w')"
    by fastforce
  from run show ?thesis
    by (cases rule: handleUpload_cases) (use d run in \<open>simp_all add: emitted_def\<close>)
qed

theorem handleUpload_preconditions_witness:
  "handleUpload toLowerCase_latin1 (None :: nat client option) demo_form demo_world
     = (demo_form\<lparr>error := msg_not_configured\<rparr>, demo_world)
   \<and> handleUpload toLowerCase_latin1 (Some (scripted 0 [] []))
       (demo_form\<lparr>activeCountry := None\<rparr>) demo_world
     = (demo_form\<lparr>activeCountry := None, error := msg_no_country\<rparr>, demo_world)
   \<and> handleUpload toLowerCase_latin1 (Some (scripted 0 [] []))
       (demo_form\<lparr>audioFile := None\<rparr>) demo_world
     = (demo_form\<lparr>audioFile := None, error := msg_no_files\<rparr>, demo_world)
   \<and> emitted demo_world
       (snd (handleUpload toLowerCase_latin1 (None :: nat client option)
          (demo_form\<lparr>activeCountry := None\<rparr>) demo_world)) = []
   \<and> emitted demo_world
       (snd (handleUpload toLowerCase_latin1 (Some (scripted 0 [] []))
          (demo_form\<lparr>audioFile := None\<rparr>) demo_world)) = []"
  using
    handleUpload_preconditions [of "None :: nat client option" toLowerCase_latin1 demo_form demo_world]
    handleUpload_preconditions [of "Some (scripted 0 [] [])" toLowerCase_latin1
      "demo_form\<lparr>activeCountry := None\<rparr>" demo_world]
    handleUpload_preconditions [of "Some (scripted 0 [] [])" toLowerCase_latin1
      "demo_form\<lparr>audioFile := None\<rparr>" demo_world]
    handleUpload_preconditions [of "None :: nat client option" toLowerCase_latin1
      "demo_form\<lparr>activeCountry := None\<rparr>" demo_world]
  by (simp add: demo_form_def emitted_def)


text \<open>
  Claim C3, as amended.  In every run of \<open>handleUpload\<close> that passes the preconditions the
  identifier is drawn from \<open>uuidv4\<close> exactly once, as the first effect of the run and so
  before any network call; the objects uploaded are named, in this order, by the base
  name built from that identifier with the image file's and the audio file's extension;
  for identifiers of the UUID text form, two object names built from different
  identifiers are different.  The inserted row has the keys \<open>country_code\<close>, \<open>title\<close>,
  \<open>info\<close>, \<open>image_url\<close>, \<open>audio_url\<close> and no \<open>id\<close>: the identifier is not sent as the
  row's primary key, which is left to the table's default.
\<close>

theorem handleUpload_identifier:
  assumes run: "handleUpload lower supabase s w = (s', w')"
      and pre: "supabase = Some cl" "activeCountry s = Some c"
        "imageFile s = Some img" "audioFile s = Some aud"
  shows "emitted w w' = UuidV4 (uuid_source w (uuid_calls w)) # tl (emitted w w')
       \<and> list_all (\<lambda>x. \<not> is_uuid_event x) (tl (emitted w w'))
       \<and> takeWhile (\<lambda>x. \<not> is_network x) (emitted w w') = [UuidV4 (uuid_source w (uuid_calls w))]
       \<and> uuid_calls w' = Suc (uuid_calls w)
       \<and> uploaded_names (emitted w w') \<noteq> []
       \<and> prefix (uploaded_names (emitted w w'))
           [(js ''images'',
             objectName (baseName lower c (title s) (uuid_source w (uuid_calls w)))
               (extOr img (js ''jpg''))),
            (js ''audio'',
             objectName (baseName lower c (title s) (uuid_source w (uuid_calls w)))
               (extOr aud (js ''mp3'')))]
       \<and> list_all (\<lambda>p. row_id p = None \<and>
             map fst p = [''country_code'', ''title'', ''info'', ''image_url'', ''audio_url''])
           (inserted_rows (emitted w w'))
       \<and> (\<forall>c2 t2 u2 f2.
             is_uuid (uuid_source w (uuid_calls w)) \<and> is_uuid u2 \<and>
             keeps_suffix lower (uuid_source w (uuid_calls w)) \<and> keeps_suffix lower u2 \<and>
             u2 \<noteq> uuid_source w (uuid_calls w) \<longrightarrow>
             objectName (baseName lower c (title s) (uuid_source w (uuid_calls w)))
               (extOr img (js ''jpg''))
               \<noteq> objectName (baseName lower c2 t2 u2) (extOr f2 (js ''jpg'')) \<and>
             objectName (baseName lower c (title s) (uuid_source w (uuid_calls w)))
               (extOr aud (js ''mp3''))
               \<noteq> objectName (baseName lower c2 t2 u2) (extOr f2 (js ''mp3'')))"
proof -
  have dots: "0x2E \<notin> set (js ''jpg'')" "0x2E \<notin> set (js ''mp3'')"
    by (simp_all add: js_def)
  have free: "\<forall>c2 t2 u2 f2.
             is_uuid (uuid_source w (uuid_calls w)) \<and> is_uuid u2 \<and>
             keeps_suffix lower (uuid_source w (uuid_calls w)) \<and> keeps_suffix lower u2 \<and>
             u2 \<noteq> uuid_source w (uuid_calls w) \<longrightarrow>
             objectName (baseName lower c (title s) (uuid_source w (uuid_calls w)))
               (extOr img (js ''jpg''))
               \<noteq> objectName (baseName lower c2 t2 u2) (extOr f2 (js ''jpg'')) \<and>
             objectName (baseName lower c (title s) (uuid_source w (uuid_calls w)))
               (extOr aud (js ''mp3''))
               \<noteq> objectName (baseName lower c2 t2 u2) (extOr f2 (js ''mp3''))"
    using object_names_collision_free [OF _ dots(1)] object_names_collision_free [OF _ dots(2)]
    by blast
  have rest: "emitted w w' = UuidV4 (uuid_source w (uuid_calls w)) # tl (emitted w w')
       \<and> list_all (\<lambda>x. \<not> is_uuid_event x) (tl (emitted w w'))
       \<and> takeWhile (\<lambda>x. \<not> is_network x) (emitted w w') = [UuidV4 (uuid_source w (uuid_calls w))]
       \<and> uuid_calls w' = Suc (uuid_calls w)
       \<and> uploaded_names (emitted w w') \<noteq> []
       \<and> prefix (uploaded_names (emitted w w'))
           [(js ''images'',
             objectName (baseName lower c (title s) (uuid_source w (uuid_calls w)))
               (extOr img (js ''jpg''))),
            (js ''audio'',
             objectName (baseName lower c (title s) (uuid_source w (uuid_calls w)))
               (extOr aud (js ''mp3'')))]
       \<and> list_all (\<lambda>p. row_id p = None \<and>
             map fst p = [''country_code'', ''title'', ''info'', ''image_url'', ''audio_url''])
           (inserted_rows (emitted w w'))"
    using run
    by (cases rule: handleUpload_cases)
       (use pre in \<open>simp_all add: emitted_def is_uuid_event_def is_network_def row_id_def row_of_def\<close>)
  from rest free show ?thesis by (simp only: simp_thms)
qed

theorem handleUpload_identifier_witness:
  "is_uuid demo_uuid \<and> is_uuid other_uuid \<and> other_uuid \<noteq> demo_uuid
   \<and> keeps_suffix toLowerCase_latin1 demo_uuid \<and> keeps_suffix toLowerCase_latin1 other_uuid
   \<and> objectName (baseName toLowerCase_latin1 japan (js ''Song'') demo_uuid)
        (extOr photo_png (js ''jpg''))
      \<noteq> objectName (baseName toLowerCase_latin1 japan (js ''Song'') other_uuid)
          (extOr photo_png (js ''jpg''))
   \<and> emitted demo_world
        (snd (handleUpload toLowerCase_latin1 (Some (scripted 0 [] [])) demo_form demo_world))
      = UuidV4 demo_uuid #
        tl (emitted demo_world
             (snd (handleUpload toLowerCase_latin1 (Some (scripted 0 [] [])) demo_form demo_world)))
   \<and> uuid_calls (snd (handleUpload toLowerCase_latin1 (Some (scripted 0 [] [])) demo_form demo_world))
      = 1
   \<and> inserted_rows (emitted demo_world
        (snd (handleUpload toLowerCase_latin1 (Some (scripted 0 [] [])) demo_form demo_world)))
      = [demo_row]
   \<and> row_id demo_row = None"
proof -
  have u: "is_uuid demo_uuid" "is_uuid other_uuid" "other_uuid \<noteq> demo_uuid"
    by (simp_all add: is_uuid_def demo_uuid_def other_uuid_def js_def)
  have k: "keeps_suffix toLowerCase_latin1 demo_uuid" "keeps_suffix toLowerCase_latin1 other_uuid"
    using u by (simp_all add: toLowerCase_latin1_keeps is_uuid_in_class)
  have p: "activeCountry demo_form = Some japan" "imageFile demo_form = Some photo_png"
    "audioFile demo_form = Some song_mp3" "title demo_form = js ''Song''"
    "uuid_source demo_world (uuid_calls demo_world) = demo_uuid" "uuid_calls demo_world = 0"
    by (simp_all add: demo_form_sel demo_world_sel)
  have r: "inserted_rows (emitted demo_world
        (snd (handleUpload toLowerCase_latin1 (Some (scripted 0 [] [])) demo_form demo_world)))
      = [demo_row]"
    by (simp add: demo_run_completes emitted_def demo_world_sel)
  let ?R = "handleUpload toLowerCase_latin1 (Some (scripted 0 [] [])) demo_form demo_world"
  have run: "?R = (fst ?R, snd ?R)"
    by simp
  note T = handleUpload_identifier [OF run refl p(1) p(2) p(3)]
  from T have A: "emitted demo_world (snd ?R) = UuidV4 demo_uuid # tl (emitted demo_world (snd ?R))"
    by (simp add: demo_world_sel)
  from T have B: "uuid_calls (snd ?R) = 1"
    by (simp add: demo_world_sel)
  from T have F: "\<forall>c2 t2 u2 f2.
             is_uuid demo_uuid \<and> is_uuid u2 \<and>
             keeps_suffix toLowerCase_latin1 demo_uuid \<and> keeps_suffix toLowerCase_latin1 u2 \<and>
             u2 \<noteq> demo_uuid \<longrightarrow>
             objectName (baseName toLowerCase_latin1 japan (js ''Song'') demo_uuid)
               (extOr photo_png (js ''jpg''))
               \<noteq> objectName (baseName toLowerCase_latin1 c2 t2 u2) (extOr f2 (js ''jpg'')) \<and>
             objectName (baseName toLowerCase_latin1 japan (js ''Song'') demo_uuid)
               (extOr song_mp3 (js ''mp3''))
               \<noteq> objectName (baseName toLowerCase_latin1 c2 t2 u2) (extOr f2 (js ''mp3''))"
    by (simp add: demo_world_sel p(4))
  from F u k have C: "objectName (baseName toLowerCase_latin1 japan (js ''Song'') demo_uuid)
        (extOr photo_png (js ''jpg''))
      \<noteq> objectName (baseName toLowerCase_latin1 japan (js ''Song'') other_uuid)
          (extOr photo_png (js ''jpg''))"
    by blast
  have D: "row_id demo_row = None"
    by (simp add: row_id_def demo_row_def)
  from u k C A B r D show ?thesis by simp
qed

text \<open>
  The claim as first stated says the identifier is the inserted row's primary key.  In a
  run that succeeds, the row handed to \<open>insert\<close> has no \<open>id\<close> at all.
\<close>

theorem handleUpload_row_without_id_counterexample:
  "fst (uuidv4 demo_world) = demo_uuid
   \<and> inserted_rows (emitted demo_world
        (snd (handleUpload toLowerCase_latin1 (Some (scripted 0 [] [])) demo_form demo_world)))
      = [demo_row]
   \<and> row_id demo_row = None
   \<and> row_id demo_row \<noteq> Some (JStr demo_uuid)"
  by (simp add: demo_run_completes emitted_def demo_world_sel uuidv4_def Let_def row_id_def
      demo_row_def)


text \<open>
  Claim C9.  In every failing run of \<open>handleUpload\<close> (a precondition is violated, or the
  image upload, the audio upload or the row insert answers with an error) the form fields
  \<open>title\<close>, \<open>info\<close>, \<open>imageFile\<close> and \<open>audioFile\<close> keep the values they had on entry and
  \<open>showForm\<close> is unchanged, so the form stays open.  Whenever a run changes one of the four
  fields, the row insert of that run succeeded and all four fields are cleared.
\<close>

theorem handleUpload_failure_keeps_form:
  assumes run: "handleUpload lower supabase s w = (s', w')"
  shows "(submit_failed supabase s (emitted w w') \<longrightarrow>
            title s' = title s \<and> info s' = info s \<and> imageFile s' = imageFile s \<and>
            audioFile s' = audioFile s \<and> showForm s' = showForm s)
       \<and> (title s' \<noteq> title s \<or> info s' \<noteq> info s \<or> imageFile s' \<noteq> imageFile s \<or>
            audioFile s' \<noteq> audioFile s \<longrightarrow>
            list_ex insert_ok (emitted w w') \<and>
            title s' = [] \<and> info s' = [] \<and> imageFile s' = None \<and> audioFile s' = None)"
  using run
proof (cases rule: handleUpload_cases)
  case (completed cl c img aud ident base d1 b1 d2 b2 row b3 refreshed b4)
  then show ?thesis by (simp add: emitted_def submit_failed_def ev_defs)
next
  case (refresh_threw cl c img aud ident base d1 b1 d2 b2 row b3 e b4)
  then show ?thesis by (simp add: emitted_def submit_failed_def ev_defs)
qed (simp_all add: emitted_def)

theorem handleUpload_failure_keeps_form_witness:
  "submit_failed (Some (scripted 1 (js ''no space'') []))  demo_form
     (emitted demo_world
        (snd (handleUpload toLowerCase_latin1 (Some (scripted 1 (js ''no space'') [])) demo_form
           demo_world)))
   \<and> title (fst (handleUpload toLowerCase_latin1 (Some (scripted 1 (js ''no space'') [])) demo_form
         demo_world)) = js ''Song''
   \<and> imageFile (fst (handleUpload toLowerCase_latin1 (Some (scripted 1 (js ''no space'') []))
         demo_form demo_world)) = Some photo_png
   \<and> showForm (fst (handleUpload toLowerCase_latin1 (Some (scripted 1 (js ''no space'') []))
         demo_form demo_world))
   \<and> title (fst (handleUpload toLowerCase_latin1 (Some (scripted 0 [] [])) demo_form demo_world))
       \<noteq> title demo_form
   \<and> list_ex insert_ok
       (emitted demo_world
          (snd (handleUpload toLowerCase_latin1 (Some (scripted 0 [] [])) demo_form demo_world)))"
proof -
  have f: "submit_failed (Some (scripted 1 (js ''no space'') []))  demo_form
     (emitted demo_world
        (snd (handleUpload toLowerCase_latin1 (Some (scripted 1 (js ''no space'') [])) demo_form
           demo_world)))"
    by (simp add: demo_run_image_fails emitted_def demo_world_sel submit_failed_def
        step_failure_def error_of_def)
  have t: "title (fst (handleUpload toLowerCase_latin1 (Some (scripted 0 [] [])) demo_form demo_world))
       \<noteq> title demo_form"
    by (simp add: demo_run_completes demo_form_sel js_def)
  let ?A = "handleUpload toLowerCase_latin1 (Some (scripted 1 (js ''no space'') [])) demo_form
    demo_world"
  let ?B = "handleUpload toLowerCase_latin1 (Some (scripted 0 [] [])) demo_form demo_world"
  have a: "?A = (fst ?A, snd ?A)" and b: "?B = (fst ?B, snd ?B)"
    by simp_all
  from handleUpload_failure_keeps_form [OF a] handleUpload_failure_keeps_form [OF b] f t
  show ?thesis by (simp add: demo_form_sel)
qed

text \<open>
  Claim C10, as amended.  When the row insert of a run succeeded and the refresh query
  that follows it returns an error, so no data, the run still ends as a success: the four
  form fields are cleared, the form is closed, no error text is shown, nothing is logged,
  and the entries list is replaced by the empty list.  The refresh query is the last call
  of the run; its returned error is not looked at.  When the refresh call throws instead,
  the \<open>catch\<close> block takes over: the error is logged and its message (or the fixed text
  when the message is empty) becomes the error text, the four fields stay cleared, the
  form is not closed and the entries list is not replaced.
\<close>

theorem handleUpload_refresh_unchecked:
  assumes run: "handleUpload lower supabase s w = (s', w')"
      and ins: "list_ex insert_ok (emitted w w')"
  shows "(FromSelect q r \<in> set (emitted w w') \<and> data_of r = None \<longrightarrow>
            title s' = [] \<and> info s' = [] \<and> imageFile s' = None \<and> audioFile s' = None
          \<and> showForm s' = False \<and> error s' = [] \<and> uploading s' = False
          \<and> entries s' = []
          \<and> list_all (\<lambda>x. \<not> is_console x) (emitted w w')
          \<and> last (emitted w w') = FromSelect q r)
       \<and> (FromSelectThrew q e \<in> set (emitted w w') \<longrightarrow>
            title s' = [] \<and> info s' = [] \<and> imageFile s' = None \<and> audioFile s' = None
          \<and> showForm s' = showForm s \<and> error s' = strOr (message e) msg_upload_failed
          \<and> uploading s' = False
          \<and> entries s' = entries s
          \<and> suffix [FromSelectThrew q e, ConsoleError e] (emitted w w'))"
  using run
proof (cases rule: handleUpload_cases)
  case (completed cl c img aud ident base d1 b1 d2 b2 row b3 refreshed b4)
  then show ?thesis by (auto simp: emitted_def ev_defs dataOrEmpty_def)
next
  case (refresh_threw cl c img aud ident base d1 b1 d2 b2 row b3 e' b4)
  then show ?thesis by (auto simp: emitted_def ev_defs suffix_def)
qed (use ins in \<open>simp_all add: emitted_def ev_defs\<close>)

theorem handleUpload_refresh_unchecked_witness:
  "list_ex insert_ok
     (emitted demo_world
        (snd (handleUpload toLowerCase_latin1 (Some (scripted 4 (js ''timeout'') [])) demo_form
           demo_world)))
   \<and> FromSelect newest_first (Failure \<lparr>message = js ''timeout''\<rparr>)
       \<in> set (emitted demo_world
          (snd (handleUpload toLowerCase_latin1 (Some (scripted 4 (js ''timeout'') [])) demo_form
             demo_world)))
   \<and> data_of (Failure \<lparr>message = js ''timeout''\<rparr> :: entry list response) = None
   \<and> entries demo_form \<noteq> []
   \<and> entries (fst (handleUpload toLowerCase_latin1 (Some (scripted 4 (js ''timeout'') []))
         demo_form demo_world)) = []
   \<and> error (fst (handleUpload toLowerCase_latin1 (Some (scripted 4 (js ''timeout'') []))
         demo_form demo_world)) = []
   \<and> \<not> showForm (fst (handleUpload toLowerCase_latin1 (Some (scripted 4 (js ''timeout'') []))
         demo_form demo_world))
   \<and> list_ex insert_ok
     (emitted demo_world
        (snd (handleUpload toLowerCase_latin1 (Some (scripted_throwing (js ''boom''))) demo_form
           demo_world)))
   \<and> FromSelectThrew newest_first \<lparr>message = js ''boom''\<rparr>
       \<in> set (emitted demo_world
          (snd (handleUpload toLowerCase_latin1 (Some (scripted_throwing (js ''boom''))) demo_form
             demo_world)))
   \<and> error (fst (handleUpload toLowerCase_latin1 (Some (scripted_throwing (js ''boom'')))
         demo_form demo_world)) = js ''boom''
   \<and> title (fst (handleUpload toLowerCase_latin1 (Some (scripted_throwing (js ''boom'')))
         demo_form demo_world)) = []
   \<and> showForm (fst (handleUpload toLowerCase_latin1 (Some (scripted_throwing (js ''boom'')))
         demo_form demo_world))
   \<and> entries (fst (handleUpload toLowerCase_latin1 (Some (scripted_throwing (js ''boom'')))
         demo_form demo_world)) = entries demo_form"
proof -
  let ?A = "handleUpload toLowerCase_latin1 (Some (scripted 4 (js ''timeout'') [])) demo_form
    demo_world"
  let ?B = "handleUpload toLowerCase_latin1 (Some (scripted_throwing (js ''boom''))) demo_form
    demo_world"
  have a: "?A = (fst ?A, snd ?A)" and b: "?B = (fst ?B, snd ?B)"
    by simp_all
  have i: "list_ex insert_ok (emitted demo_world (snd ?A))"
    by (simp add: demo_run_refresh_fails emitted_def demo_world_sel insert_ok_def error_of_def)
  have q: "FromSelect newest_first (Failure \<lparr>message = js ''timeout''\<rparr>)
       \<in> set (emitted demo_world (snd ?A))"
    by (simp add: demo_run_refresh_fails emitted_def demo_world_sel)
  have d: "data_of (Failure \<lparr>message = js ''timeout''\<rparr> :: entry list response) = None"
    by (simp add: data_of_def)
  have e: "entries demo_form \<noteq> []" "showForm demo_form"
    by (simp_all add: demo_form_sel)
  have i': "list_ex insert_ok (emitted demo_world (snd ?B))"
    by (simp add: demo_run_refresh_throws emitted_def demo_world_sel insert_ok_def error_of_def)
  have q': "FromSelectThrew newest_first \<lparr>message = js ''boom''\<rparr>
       \<in> set (emitted demo_world (snd ?B))"
    by (simp add: demo_run_refresh_throws emitted_def demo_world_sel)
  have m: "strOr (js ''boom'') msg_upload_failed = js ''boom''"
    by (simp add: strOr_def js_def)
  from handleUpload_refresh_unchecked [OF a i] handleUpload_refresh_unchecked [OF b i']
    i q d e i' q' m
  show ?thesis by simp
qed

text \<open>
  The claim as first stated covers every failing refresh.  A refresh that throws after a
  successful insert ends with its message as error text, the form still open and the
  entries list as it was.
\<close>

theorem handleUpload_refresh_throws_counterexample:
  "list_ex insert_ok
     (emitted demo_world
        (snd (handleUpload toLowerCase_latin1 (Some (scripted_throwing (js ''boom''))) demo_form
           demo_world)))
   \<and> emitted demo_world
        (snd (handleUpload toLowerCase_latin1 (Some (scripted_throwing (js ''boom''))) demo_form
           demo_world))
      = [UuidV4 demo_uuid,
         StorageUpload (js ''images'') demo_image_name photo_png (Success \<lparr>path = demo_image_name\<rparr>),
         StorageUpload (js ''audio'') demo_audio_name song_mp3 (Success \<lparr>path = demo_audio_name\<rparr>),
         FromInsert (js ''entries'') demo_row (Success ()),
         FromSelectThrew newest_first \<lparr>message = js ''boom''\<rparr>,
         ConsoleError \<lparr>message = js ''boom''\<rparr>]
   \<and> error (fst (handleUpload toLowerCase_latin1 (Some (scripted_throwing (js ''boom'')))
         demo_form demo_world)) = js ''boom''
   \<and> error (fst (handleUpload toLowerCase_latin1 (Some (scripted_throwing (js ''boom'')))
         demo_form demo_world)) \<noteq> []
   \<and> showForm (fst (handleUpload toLowerCase_latin1 (Some (scripted_throwing (js ''boom'')))
         demo_form demo_world))
   \<and> entries (fst (handleUpload toLowerCase_latin1 (Some (scripted_throwing (js ''boom'')))
         demo_form demo_world)) = [demo_entry (js ''DE'') 1]
   \<and> entries (fst (handleUpload toLowerCase_latin1 (Some (scripted_throwing (js ''boom'')))
         demo_form demo_world)) \<noteq> []"
  by (simp add: demo_run_refresh_throws emitted_def demo_world_sel demo_form_sel insert_ok_def
      error_of_def strOr_def js_def)

section \<open>Loading the record store\<close>

text \<open>
  Claim C5, as amended.  \<open>load\<close> asks for all entries ordered by \<open>created_at\<close> descending.
  When the answer is not discarded (the \<open>ignore\<close> flag is still false when the query
  returns): on an error the error is logged, the entries list becomes the empty list and
  the loading flag is cleared; on success the entries list is replaced wholesale by the
  rows fetched, in the order the backend returned them (newest first when the backend
  honours the requested order), and the loading flag is cleared.  When \<open>ignore\<close> is set the
  answer is dropped: nothing is logged and the state, loading flag included, is unchanged.
  The statement is about a query that returns (the event \<open>FromSelect\<close>); on each of these
  paths \<open>load\<close> runs to its end and nothing propagates to its caller.
\<close>

theorem load_replaces_entries:
  assumes run: "load supabase ignore s w = (s', w')"
      and ev: "FromSelect q r \<in> set (emitted w w')"
  shows "q = newest_first \<and> q_table q = js ''entries'' \<and> q_order q = js ''created_at''
       \<and> \<not> q_ascending q
       \<and> (\<not> ignore \<longrightarrow>
            s' = s\<lparr>entries := dataOrEmpty r, loading := False\<rparr> \<and> \<not> loading s' \<and>
            (case r of
               Failure e \<Rightarrow> emitted w w' = [FromSelect q r, ConsoleError e] \<and> entries s' = []
             | Success d \<Rightarrow> emitted w w' = [FromSelect q r] \<and> entries s' = d \<and>
                 newest_sorted (entries s') = newest_sorted d))
       \<and> (ignore \<longrightarrow> s' = s \<and> emitted w w' = [FromSelect q r])"
proof (cases supabase)
  case None
  with run ev show ?thesis by (simp add: load_def emitted_def)
next
  case (Some cl)
  obtain a0 b where sel: "from_select cl newest_first (backend w) = (a0, b)"
    by fastforce
  show ?thesis
  proof (cases a0)
    case (Inl thrown)
    with run ev Some sel show ?thesis
      by (auto simp: load_def select_rows_def emitted_def)
  next
    case (Inr r0)
    show ?thesis
    proof (cases ignore)
      case True
      with run ev Some sel Inr show ?thesis
        by (auto simp: load_def select_rows_def emitted_def newest_first_def)
    next
      case False
      with run ev Some sel Inr show ?thesis
        by (cases r0)
           (auto simp: load_def select_rows_def console_error_def emitted_def newest_first_def
              error_of_def data_of_def dataOrEmpty_def Let_def)
    qed
  qed
qed

theorem load_replaces_entries_witness:
  "FromSelect newest_first (Failure \<lparr>message = js ''down''\<rparr>)
     \<in> set (emitted demo_world
         (snd (load (Some (scripted 1 (js ''down'') [])) False initial_state demo_world)))
   \<and> emitted demo_world
        (snd (load (Some (scripted 1 (js ''down'') [])) False initial_state demo_world))
      = [FromSelect newest_first (Failure \<lparr>message = js ''down''\<rparr>),
         ConsoleError \<lparr>message = js ''down''\<rparr>]
   \<and> entries (fst (load (Some (scripted 1 (js ''down'') [])) False initial_state demo_world)) = []
   \<and> \<not> loading (fst (load (Some (scripted 1 (js ''down'') [])) False initial_state demo_world))
   \<and> FromSelect newest_first (Success [demo_entry (js ''DE'') 3, demo_entry (js ''FR'') 2])
     \<in> set (emitted demo_world
         (snd (load (Some (scripted 0 [] [demo_entry (js ''DE'') 3, demo_entry (js ''FR'') 2]))
            False initial_state demo_world)))
   \<and> entries (fst (load (Some (scripted 0 [] [demo_entry (js ''DE'') 3, demo_entry (js ''FR'') 2]))
         False initial_state demo_world))
      = [demo_entry (js ''DE'') 3, demo_entry (js ''FR'') 2]
   \<and> FromSelect newest_first (Failure \<lparr>message = js ''down''\<rparr>)
     \<in> set (emitted demo_world
         (snd (load (Some (scripted 1 (js ''down'') [])) True initial_state demo_world)))
   \<and> fst (load (Some (scripted 1 (js ''down'') [])) True initial_state demo_world) = initial_state"
proof -
  have a: "FromSelect newest_first (Failure \<lparr>message = js ''down''\<rparr>)
     \<in> set (emitted demo_world
         (snd (load (Some (scripted 1 (js ''down'') [])) ig initial_state demo_world)))" for ig
    by (simp add: load_def select_rows_def console_error_def emitted_def scripted_def
        demo_world_def error_of_def Let_def)
  have b: "FromSelect newest_first (Success [demo_entry (js ''DE'') 3, demo_entry (js ''FR'') 2])
     \<in> set (emitted demo_world
         (snd (load (Some (scripted 0 [] [demo_entry (js ''DE'') 3, demo_entry (js ''FR'') 2]))
            False initial_state demo_world)))"
    by (simp add: load_def select_rows_def console_error_def emitted_def scripted_def
        demo_world_def error_of_def Let_def)
  from
    load_replaces_entries [OF prod.collapse [symmetric] a [of False]]
    load_replaces_entries [OF prod.collapse [symmetric] b]
    load_replaces_entries [OF prod.collapse [symmetric] a [of True]]
    a b
  show ?thesis by (simp add: dataOrEmpty_def data_of_def initial_state_def)
qed

text \<open>
  The claim as first stated holds of every load.  A load whose effect was cleaned up
  before the failing query returned logs nothing and leaves the loading flag set.
\<close>

theorem load_ignored_counterexample:
  "emitted demo_world
     (snd (load (Some (scripted 1 (js ''down'') [])) True initial_state demo_world))
     = [FromSelect newest_first (Failure \<lparr>message = js ''down''\<rparr>)]
   \<and> loading (fst (load (Some (scripted 1 (js ''down'') [])) True initial_state demo_world))"
  by (simp add: load_def select_rows_def emitted_def scripted_def demo_world_def
      initial_state_def)


section \<open>Extensions of the uploaded objects\<close>

text \<open>
  \<open>split('.').pop()\<close> yields the part of the file name after its last full stop, and the
  whole name when it has none; the fallback is taken only when that part is empty.
\<close>

lemma extOr_dotless:
  "0x2E \<notin> set (file_name f) \<Longrightarrow> file_name f \<noteq> [] \<Longrightarrow> extOr f fallback = file_name f"
proof -
  have "0x2E \<notin> set n \<Longrightarrow> split 0x2E n = [n]" for n
    by (induction n) auto
  then show "0x2E \<notin> set (file_name f) \<Longrightarrow> file_name f \<noteq> [] \<Longrightarrow> extOr f fallback = file_name f"
    by (simp add: extOr_def pop_def optOrStr_def strOr_def)
qed

lemma extOr_examples:
  "extOr photo_png (js ''jpg'') = js ''png''"
  "extOr \<lparr>file_name = js ''archive.tar.gz'', file_bytes = []\<rparr> (js ''jpg'') = js ''gz''"
  "extOr \<lparr>file_name = js ''photo.'', file_bytes = []\<rparr> (js ''jpg'') = js ''jpg''"
  "extOr \<lparr>file_name = [], file_bytes = []\<rparr> (js ''mp3'') = js ''mp3''"
  by (simp_all add: extOr_def pop_def optOrStr_def strOr_def photo_png_def js_def)

text \<open>
  Claim C7 says that a file whose name has no extension is uploaded as \<open>{base}.jpg\<close>
  (\<open>{base}.mp3\<close> for the audio file).  For the image file named \<open>photo\<close> the code takes
  the whole name as the extension and uploads \<open>{base}.photo\<close>.
\<close>

theorem extension_fallback_skipped_for_dotless_name:
  "extOr photo_noext (js ''jpg'') = js ''photo''
   \<and> extOr \<lparr>file_name = js ''song'', file_bytes = []\<rparr> (js ''mp3'') = js ''song''
   \<and> uploaded_names (emitted demo_world
        (snd (handleUpload toLowerCase_latin1 (Some (scripted 1 [] []))
           (demo_form\<lparr>imageFile := Some photo_noext\<rparr>) demo_world)))
      = [(js ''images'', js ''jp-song-3f2b8c1e-9a4d-4e6f-8b7a-0c1d2e3f4a5b.photo'')]"
proof -
  have a: "extOr photo_noext (js ''jpg'') = js ''photo''"
    "extOr \<lparr>file_name = js ''song'', file_bytes = []\<rparr> (js ''mp3'') = js ''song''"
    by (simp_all add: extOr_def pop_def optOrStr_def strOr_def photo_noext_def js_def)
  have b: "uploaded_names (emitted demo_world
        (snd (handleUpload toLowerCase_latin1 (Some (scripted 1 [] []))
           (demo_form\<lparr>imageFile := Some photo_noext\<rparr>) demo_world)))
      = [(js ''images'', js ''jp-song-3f2b8c1e-9a4d-4e6f-8b7a-0c1d2e3f4a5b.photo'')]"
    by (simp add: demo_run_noext emitted_def demo_world_sel demo_base_name_def js_append)
  from a b show ?thesis by simp
qed


end
